theory Spec2Isabelle
  imports Main
begin

section \<open>Python values used by make\_feed.py\<close>

text \<open>
  A Python string is a sequence of Unicode code points. It is represented here by its
  UTF-8 encoding, a list of 8-bit characters: a code point below 128 is one character, the
  others are two to four. Equality and concatenation of strings are those of the
  encodings, and an ASCII literal of the program is the same list in both views. Where the
  program looks at single code points (white space, decimal digits), the tables of the
  Unicode database are given as code points and as their encodings, and a string starts or
  ends with such a code point exactly when it starts or ends with its encoding.
  Exceptions are values: a function that can raise returns \<open>py_error + 'a\<close>, with
  \<open>Inl\<close> for the exception, and the first exception raised ends the computation.
\<close>

datatype py_error = AttributeError | TypeError | ValueError | OSError | RequestException

text \<open>\<open>utf8_encode cp\<close> is the encoding of one code point.\<close>

definition utf8_encode :: "nat \<Rightarrow> string" where
  "utf8_encode cp =
     (if cp < 128 then [char_of cp]
      else if cp < 2048 then [char_of (192 + cp div 64), char_of (128 + cp mod 64)]
      else if cp < 65536 then
        [char_of (224 + cp div 4096), char_of (128 + cp div 64 mod 64), char_of (128 + cp mod 64)]
      else
        [char_of (240 + cp div 262144), char_of (128 + cp div 4096 mod 64),
         char_of (128 + cp div 64 mod 64), char_of (128 + cp mod 64)])"

text \<open>\<open>str(n)\<close> for an integer, as the f-string of \<open>resp_report\<close> renders the status code.\<close>

definition digit_char :: "nat \<Rightarrow> char" where
  "digit_char d = char_of (48 + d)"

function str_nat :: "nat \<Rightarrow> string" where
  "str_nat n = (if n < 10 then [digit_char n] else str_nat (n div 10) @ [digit_char (n mod 10)])"
  by pat_completeness auto
termination
  by (relation "measure (\<lambda>n. n)") auto

declare str_nat.simps [simp del]

definition str_int :: "int \<Rightarrow> string" where
  "str_int i = (if i < 0 then CHR ''-'' # str_nat (nat (- i)) else str_nat (nat i))"

text \<open>\<open>sep.join(xs)\<close>.\<close>

fun join :: "string \<Rightarrow> string list \<Rightarrow> string" where
  "join sep [] = []"
| "join sep [x] = x"
| "join sep (x # y # ys) = x @ sep @ join sep (y # ys)"

text \<open>
  \<open>str.strip()\<close> without arguments removes the white-space code points at both ends. The
  white-space code points of Python's Unicode database are the ASCII controls 9 to 13 and
  28 to 31, the space, U+0085, U+00A0, U+1680, U+2000 to U+200A, U+2028, U+2029, U+202F,
  U+205F and U+3000; \<open>whitespace\<close> lists their encodings. In the encoding, a string
  starts (ends) with a white-space code point exactly when it starts (ends) with the
  encoding of one.
\<close>

definition whitespace_code_points :: "nat list" where
  "whitespace_code_points =
     [9, 10, 11, 12, 13, 28, 29, 30, 31, 32, 133, 160, 5760, 8192, 8193, 8194, 8195, 8196,
      8197, 8198, 8199, 8200, 8201, 8202, 8232, 8233, 8239, 8287, 12288]"

definition whitespace :: "string list" where
  "whitespace =
     [[CHR 0x09], [CHR 0x0A], [CHR 0x0B], [CHR 0x0C], [CHR 0x0D], [CHR 0x1C], [CHR 0x1D],
      [CHR 0x1E], [CHR 0x1F], [CHR 0x20], [CHR 0xC2, CHR 0x85], [CHR 0xC2, CHR 0xA0],
      [CHR 0xE1, CHR 0x9A, CHR 0x80], [CHR 0xE2, CHR 0x80, CHR 0x80],
      [CHR 0xE2, CHR 0x80, CHR 0x81], [CHR 0xE2, CHR 0x80, CHR 0x82],
      [CHR 0xE2, CHR 0x80, CHR 0x83], [CHR 0xE2, CHR 0x80, CHR 0x84],
      [CHR 0xE2, CHR 0x80, CHR 0x85], [CHR 0xE2, CHR 0x80, CHR 0x86],
      [CHR 0xE2, CHR 0x80, CHR 0x87], [CHR 0xE2, CHR 0x80, CHR 0x88],
      [CHR 0xE2, CHR 0x80, CHR 0x89], [CHR 0xE2, CHR 0x80, CHR 0x8A],
      [CHR 0xE2, CHR 0x80, CHR 0xA8], [CHR 0xE2, CHR 0x80, CHR 0xA9],
      [CHR 0xE2, CHR 0x80, CHR 0xAF], [CHR 0xE2, CHR 0x81, CHR 0x9F],
      [CHR 0xE3, CHR 0x80, CHR 0x80]]"

function lstrip_any :: "string list \<Rightarrow> string \<Rightarrow> string" where
  "lstrip_any ws s =
     (case find (\<lambda>w. w \<noteq> [] \<and> take (length w) s = w) ws of
        None \<Rightarrow> s
      | Some w \<Rightarrow> lstrip_any ws (drop (length w) s))"
  by pat_completeness auto
termination
proof (relation "measure (\<lambda>(ws, s). length s)")
  show "wf (measure (\<lambda>(ws, s). length s))" by simp
next
  fix ws :: "string list" and s w :: string
  assume "find (\<lambda>w. w \<noteq> [] \<and> take (length w) s = w) ws = Some w"
  then have "w \<noteq> []" and "take (length w) s = w"
    by (auto simp: find_Some_iff)
  then have "0 < length w" and "length w \<le> length s"
    by (auto simp: take_eq_Nil dest: arg_cong [where f = length])
  then have "length s - length w < length s"
    by arith
  then show "((ws, drop (length w) s), (ws, s)) \<in> measure (\<lambda>(ws, s). length s)"
    by simp
qed

declare lstrip_any.simps [simp del]

definition lstrip :: "string \<Rightarrow> string" where
  "lstrip s = lstrip_any whitespace s"

definition rstrip :: "string \<Rightarrow> string" where
  "rstrip s = rev (lstrip_any (map rev whitespace) (rev s))"

definition strip :: "string \<Rightarrow> string" where
  "strip s = rstrip (lstrip s)"

section \<open>The HTTP response\<close>

text \<open>
  The fields of \<open>requests.Response\<close> that the program reads. \<open>ok\<close> is the library's
  property: it calls \<open>raise_for_status\<close>, which raises \<open>HTTPError\<close> (a
  \<open>RequestException\<close>) for a status code from 400 to 499 or from 500 to 599 and for no
  other, and reports whether that call raised.
\<close>

record Response =
  status_code :: int
  reason :: string
  resp_text :: string

definition raise_for_status :: "Response \<Rightarrow> py_error + unit" where
  "raise_for_status resp =
     (if 400 \<le> status_code resp \<and> status_code resp < 500 then Inl RequestException
      else if 500 \<le> status_code resp \<and> status_code resp < 600 then Inl RequestException
      else Inr ())"

definition ok :: "Response \<Rightarrow> bool" where
  "ok resp = (case raise_for_status resp of Inl _ \<Rightarrow> False | Inr _ \<Rightarrow> True)"

definition resp_report :: "Response \<Rightarrow> string" where
  "resp_report resp = str_int (status_code resp) @ '' '' @ reason resp"

section \<open>The document tree of BeautifulSoup\<close>

text \<open>
  A \<open>Tag\<close> has a name, a dictionary of attributes and a list of children; a
  \<open>NavigableString\<close> is a text node. The tree builder stores the \<open>class\<close> attribute as
  the list of its white-space separated tokens (\<open>Multi\<close>) and every other attribute the
  program reads as one string (\<open>Str\<close>).
\<close>

datatype attr_value = Str string | Multi "string list"

datatype node =
    Tag string "string \<Rightarrow> attr_value option" "node list"
  | NavigableString string

text \<open>\<open>Tag.descendants\<close>: every node below the tag, in document order (pre-order).\<close>

fun descendants :: "node \<Rightarrow> node list" where
  "descendants (Tag nm at cs) = concat (map (\<lambda>c. c # descendants c) cs)"
| "descendants (NavigableString s) = []"

text \<open>\<open>Tag.get(key)\<close>: the attribute's value, or \<open>None\<close> when the tag does not have it.\<close>

fun get :: "node \<Rightarrow> string \<Rightarrow> attr_value option" where
  "get (Tag nm at cs) key = at key"
| "get (NavigableString s) key = None"

text \<open>
  \<open>Tag.string\<close>: a tag with exactly one child has that child's string (the child itself
  when it is a text node); a tag with no child or with several has \<open>None\<close>.
\<close>

fun string_of :: "node \<Rightarrow> string option" where
  "string_of (Tag nm at [NavigableString s]) = Some s"
| "string_of (Tag nm at [Tag nm' at' cs']) = string_of (Tag nm' at' cs')"
| "string_of (Tag nm at cs) = None"
| "string_of (NavigableString s) = Some s"

text \<open>
  The search of \<open>find_all\<close>/\<open>find\<close> with a tag name and \<open>class_\<close>
  (\<open>SoupStrainer.search_tag\<close>): only a tag of that very name is looked at; its class
  attribute matches when one of its tokens is the wanted class, or when the tokens joined by
  a space are; an attribute held as one string matches when it is equal; a missing one never.
\<close>

fun matches_attr :: "attr_value option \<Rightarrow> string \<Rightarrow> bool" where
  "matches_attr None want = False"
| "matches_attr (Some (Str s)) want = (s = want)"
| "matches_attr (Some (Multi vs)) want = (want \<in> set vs \<or> join '' '' vs = want)"

fun search_tag :: "string \<Rightarrow> string \<Rightarrow> node \<Rightarrow> bool" where
  "search_tag nm cls (Tag nm' at cs) = (nm' = nm \<and> matches_attr (at ''class'') cls)"
| "search_tag nm cls (NavigableString s) = False"

text \<open>\<open>soup(name)\<close>, that is \<open>find_all(name)\<close>: the descendant tags of that name.\<close>

fun has_name :: "string \<Rightarrow> node \<Rightarrow> bool" where
  "has_name nm (Tag nm' at cs) = (nm' = nm)"
| "has_name nm (NavigableString s) = False"

definition find_all :: "node \<Rightarrow> string \<Rightarrow> node list" where
  "find_all soup nm = filter (has_name nm) (descendants soup)"

text \<open>\<open>li.find(name, class_=cls)\<close>: the first descendant that matches, or \<open>None\<close>.\<close>

definition find_bs :: "node \<Rightarrow> string \<Rightarrow> string \<Rightarrow> node option" where
  "find_bs li nm cls =
     (case filter (search_tag nm cls) (descendants li) of [] \<Rightarrow> None | t # _ \<Rightarrow> Some t)"

section \<open>Parsing the date: \<open>datetime.strptime(date_str, '%m.%d.%Y')\<close>\<close>

text \<open>
  \<open>strptime\<close> turns the format into a regular expression, one named group for each
  directive, and matches it at the start of the string with the backtracking matcher of
  \<open>re\<close>. The groups of the three directives used here are
  \<^verbatim>\<open>%m = 1[0-2]|0[1-9]|[1-9]\<close>,
  \<^verbatim>\<open>%d = 3[0-1]|[1-2]\d|0[1-9]|[1-9]| [1-9]\<close> and
  \<^verbatim>\<open>%Y = \d\d\d\d\<close>; the dots of the format stand for themselves. A literal
  and a range of the expression are ASCII and match one character of the encoding;
  \<^verbatim>\<open>\d\<close> matches one code point that is a decimal digit of the Unicode database
  (category Nd), ASCII or not.
\<close>

datatype rx = Ch char | Rng char char | Dig | Seq rx rx | Alt rx rx

definition in_range :: "char \<Rightarrow> char \<Rightarrow> char \<Rightarrow> bool" where
  "in_range lo hi c = ((of_char lo :: nat) \<le> of_char c \<and> (of_char c :: nat) \<le> of_char hi)"

text \<open>
  The decimal digits of the Unicode database (category Nd; version 14.0, that of CPython
  3.11) come in 66 runs of ten consecutive code points with the values 0 to 9 in order;
  \<open>decimal_starts\<close> lists the first code point of each run. The encodings of the ten
  digits of a run differ in their last character only: \<open>decimal_runs\<close> gives, for each
  run, the characters before the last and the last character of the digits 0 and 9.
  \<open>digit_prefix s\<close> is the value of the decimal digit that \<open>s\<close> starts with, and the rest
  of \<open>s\<close>, or \<open>None\<close> when \<open>s\<close> does not start with one: the test of
  \<^verbatim>\<open>\d\<close>, which is \<open>str.isdecimal\<close> on one code point, and the value that
  \<open>int()\<close> gives the digit.
\<close>

definition decimal_starts :: "nat list" where
  "decimal_starts =
     [48, 1632, 1776, 1984, 2406, 2534, 2662, 2790, 2918, 3046, 3174, 3302, 3430, 3558, 3664,
      3792, 3872, 4160, 4240, 6112, 6160, 6470, 6608, 6784, 6800, 6992, 7088, 7232, 7248,
      42528, 43216, 43264, 43472, 43504, 43600, 44016, 65296, 66720, 68912, 69734, 69872,
      69942, 70096, 70384, 70736, 70864, 71248, 71360, 71472, 71904, 72016, 72784, 73040,
      73120, 92768, 92864, 93008, 120782, 120792, 120802, 120812, 120822, 123200, 123632,
      125264, 130032]"

definition decimal_runs :: "(string \<times> char \<times> char) list" where
  "decimal_runs =
     [([], CHR 0x30, CHR 0x39), ([CHR 0xD9], CHR 0xA0, CHR 0xA9),
      ([CHR 0xDB], CHR 0xB0, CHR 0xB9), ([CHR 0xDF], CHR 0x80, CHR 0x89),
      ([CHR 0xE0, CHR 0xA5], CHR 0xA6, CHR 0xAF), ([CHR 0xE0, CHR 0xA7], CHR 0xA6, CHR 0xAF),
      ([CHR 0xE0, CHR 0xA9], CHR 0xA6, CHR 0xAF), ([CHR 0xE0, CHR 0xAB], CHR 0xA6, CHR 0xAF),
      ([CHR 0xE0, CHR 0xAD], CHR 0xA6, CHR 0xAF), ([CHR 0xE0, CHR 0xAF], CHR 0xA6, CHR 0xAF),
      ([CHR 0xE0, CHR 0xB1], CHR 0xA6, CHR 0xAF), ([CHR 0xE0, CHR 0xB3], CHR 0xA6, CHR 0xAF),
      ([CHR 0xE0, CHR 0xB5], CHR 0xA6, CHR 0xAF), ([CHR 0xE0, CHR 0xB7], CHR 0xA6, CHR 0xAF),
      ([CHR 0xE0, CHR 0xB9], CHR 0x90, CHR 0x99), ([CHR 0xE0, CHR 0xBB], CHR 0x90, CHR 0x99),
      ([CHR 0xE0, CHR 0xBC], CHR 0xA0, CHR 0xA9), ([CHR 0xE1, CHR 0x81], CHR 0x80, CHR 0x89),
      ([CHR 0xE1, CHR 0x82], CHR 0x90, CHR 0x99), ([CHR 0xE1, CHR 0x9F], CHR 0xA0, CHR 0xA9),
      ([CHR 0xE1, CHR 0xA0], CHR 0x90, CHR 0x99), ([CHR 0xE1, CHR 0xA5], CHR 0x86, CHR 0x8F),
      ([CHR 0xE1, CHR 0xA7], CHR 0x90, CHR 0x99), ([CHR 0xE1, CHR 0xAA], CHR 0x80, CHR 0x89),
      ([CHR 0xE1, CHR 0xAA], CHR 0x90, CHR 0x99), ([CHR 0xE1, CHR 0xAD], CHR 0x90, CHR 0x99),
      ([CHR 0xE1, CHR 0xAE], CHR 0xB0, CHR 0xB9), ([CHR 0xE1, CHR 0xB1], CHR 0x80, CHR 0x89),
      ([CHR 0xE1, CHR 0xB1], CHR 0x90, CHR 0x99), ([CHR 0xEA, CHR 0x98], CHR 0xA0, CHR 0xA9),
      ([CHR 0xEA, CHR 0xA3], CHR 0x90, CHR 0x99), ([CHR 0xEA, CHR 0xA4], CHR 0x80, CHR 0x89),
      ([CHR 0xEA, CHR 0xA7], CHR 0x90, CHR 0x99), ([CHR 0xEA, CHR 0xA7], CHR 0xB0, CHR 0xB9),
      ([CHR 0xEA, CHR 0xA9], CHR 0x90, CHR 0x99), ([CHR 0xEA, CHR 0xAF], CHR 0xB0, CHR 0xB9),
      ([CHR 0xEF, CHR 0xBC], CHR 0x90, CHR 0x99),
      ([CHR 0xF0, CHR 0x90, CHR 0x92], CHR 0xA0, CHR 0xA9),
      ([CHR 0xF0, CHR 0x90, CHR 0xB4], CHR 0xB0, CHR 0xB9),
      ([CHR 0xF0, CHR 0x91, CHR 0x81], CHR 0xA6, CHR 0xAF),
      ([CHR 0xF0, CHR 0x91, CHR 0x83], CHR 0xB0, CHR 0xB9),
      ([CHR 0xF0, CHR 0x91, CHR 0x84], CHR 0xB6, CHR 0xBF),
      ([CHR 0xF0, CHR 0x91, CHR 0x87], CHR 0x90, CHR 0x99),
      ([CHR 0xF0, CHR 0x91, CHR 0x8B], CHR 0xB0, CHR 0xB9),
      ([CHR 0xF0, CHR 0x91, CHR 0x91], CHR 0x90, CHR 0x99),
      ([CHR 0xF0, CHR 0x91, CHR 0x93], CHR 0x90, CHR 0x99),
      ([CHR 0xF0, CHR 0x91, CHR 0x99], CHR 0x90, CHR 0x99),
      ([CHR 0xF0, CHR 0x91, CHR 0x9B], CHR 0x80, CHR 0x89),
      ([CHR 0xF0, CHR 0x91, CHR 0x9C], CHR 0xB0, CHR 0xB9),
      ([CHR 0xF0, CHR 0x91, CHR 0xA3], CHR 0xA0, CHR 0xA9),
      ([CHR 0xF0, CHR 0x91, CHR 0xA5], CHR 0x90, CHR 0x99),
      ([CHR 0xF0, CHR 0x91, CHR 0xB1], CHR 0x90, CHR 0x99),
      ([CHR 0xF0, CHR 0x91, CHR 0xB5], CHR 0x90, CHR 0x99),
      ([CHR 0xF0, CHR 0x91, CHR 0xB6], CHR 0xA0, CHR 0xA9),
      ([CHR 0xF0, CHR 0x96, CHR 0xA9], CHR 0xA0, CHR 0xA9),
      ([CHR 0xF0, CHR 0x96, CHR 0xAB], CHR 0x80, CHR 0x89),
      ([CHR 0xF0, CHR 0x96, CHR 0xAD], CHR 0x90, CHR 0x99),
      ([CHR 0xF0, CHR 0x9D, CHR 0x9F], CHR 0x8E, CHR 0x97),
      ([CHR 0xF0, CHR 0x9D, CHR 0x9F], CHR 0x98, CHR 0xA1),
      ([CHR 0xF0, CHR 0x9D, CHR 0x9F], CHR 0xA2, CHR 0xAB),
      ([CHR 0xF0, CHR 0x9D, CHR 0x9F], CHR 0xAC, CHR 0xB5),
      ([CHR 0xF0, CHR 0x9D, CHR 0x9F], CHR 0xB6, CHR 0xBF),
      ([CHR 0xF0, CHR 0x9E, CHR 0x85], CHR 0x80, CHR 0x89),
      ([CHR 0xF0, CHR 0x9E, CHR 0x8B], CHR 0xB0, CHR 0xB9),
      ([CHR 0xF0, CHR 0x9E, CHR 0xA5], CHR 0x90, CHR 0x99),
      ([CHR 0xF0, CHR 0x9F, CHR 0xAF], CHR 0xB0, CHR 0xB9)]"

definition digit_prefix :: "string \<Rightarrow> (nat \<times> string) option" where
  "digit_prefix s =
     (case find (\<lambda>(lead, lo, hi).
                   take (length lead) s = lead
                   \<and> (case drop (length lead) s of [] \<Rightarrow> False | b # r \<Rightarrow> in_range lo hi b))
             decimal_runs of
        None \<Rightarrow> None
      | Some (lead, lo, hi) \<Rightarrow>
          (case drop (length lead) s of
             [] \<Rightarrow> None
           | b # r \<Rightarrow> Some (of_char b - of_char lo, r)))"

text \<open>
  \<open>decimal_digit g\<close>: the string \<open>g\<close> is one decimal digit and nothing more;
  \<open>ascii_digit c\<close>: the character is one of the ASCII digits.
\<close>

definition decimal_digit :: "string \<Rightarrow> bool" where
  "decimal_digit g = (case digit_prefix g of Some (v, []) \<Rightarrow> True | _ \<Rightarrow> False)"

definition ascii_digit :: "char \<Rightarrow> bool" where
  "ascii_digit c = in_range CHR ''0'' CHR ''9'' c"

text \<open>
  \<open>rx_match r s\<close> lists what is left of \<open>s\<close> after each way of matching \<open>r\<close> at its
  start, in the order in which the backtracking matcher tries them (the left alternative
  first).
\<close>

fun rx_match :: "rx \<Rightarrow> string \<Rightarrow> string list" where
  "rx_match (Ch a) s = (case s of [] \<Rightarrow> [] | c # r \<Rightarrow> if c = a then [r] else [])"
| "rx_match (Rng lo hi) s = (case s of [] \<Rightarrow> [] | c # r \<Rightarrow> if in_range lo hi c then [r] else [])"
| "rx_match Dig s = (case digit_prefix s of None \<Rightarrow> [] | Some (v, r) \<Rightarrow> [r])"
| "rx_match (Seq p q) s = concat (map (rx_match q) (rx_match p s))"
| "rx_match (Alt p q) s = rx_match p s @ rx_match q s"

text \<open>A named group: the text it matched, with the rest of the string.\<close>

definition group :: "rx \<Rightarrow> string \<Rightarrow> (string \<times> string) list" where
  "group r s = map (\<lambda>rest. (take (length s - length rest) s, rest)) (rx_match r s)"

definition re_m :: rx where
  "re_m = Alt (Seq (Ch CHR ''1'') (Rng CHR ''0'' CHR ''2''))
         (Alt (Seq (Ch CHR ''0'') (Rng CHR ''1'' CHR ''9''))
              (Rng CHR ''1'' CHR ''9''))"

definition re_d :: rx where
  "re_d = Alt (Seq (Ch CHR ''3'') (Rng CHR ''0'' CHR ''1''))
         (Alt (Seq (Rng CHR ''1'' CHR ''2'') Dig)
         (Alt (Seq (Ch CHR ''0'') (Rng CHR ''1'' CHR ''9''))
         (Alt (Rng CHR ''1'' CHR ''9'')
              (Seq (Ch CHR '' '') (Rng CHR ''1'' CHR ''9'')))))"

definition re_Y :: rx where
  "re_Y = Seq Dig (Seq Dig (Seq Dig Dig))"

text \<open>
  \<open>format_regex.match(data_string)\<close> for the format \<open>%m.%d.%Y\<close>: the first match in
  backtracking order, as the three groups and the unmatched rest, or \<open>None\<close>.
\<close>

definition format_regex_match :: "string \<Rightarrow> (string \<times> string \<times> string \<times> string) option" where
  "format_regex_match s =
     (case concat (map (\<lambda>(m, r1).
             concat (map (\<lambda>r2.
               concat (map (\<lambda>(d, r3).
                 concat (map (\<lambda>r4.
                   map (\<lambda>(y, r5). (m, d, y, r5)) (group re_Y r4))
                 (rx_match (Ch CHR ''.'') r3)))
               (group re_d r2)))
             (rx_match (Ch CHR ''.'') r1)))
           (group re_m s)) of
        [] \<Rightarrow> None
      | found # _ \<Rightarrow> Some found)"

text \<open>
  \<open>int(s)\<close> on the text of a group: white space around the number is ignored (the day may
  have a leading space) and what is left are decimal digits, read in base ten.
\<close>

function digit_values :: "string \<Rightarrow> nat list" where
  "digit_values s = (case digit_prefix s of None \<Rightarrow> [] | Some (v, r) \<Rightarrow> v # digit_values r)"
  by pat_completeness auto
termination
proof (relation "measure length")
  show "wf (measure length)" by simp
next
  fix s :: string and x :: "nat \<times> string" and v :: nat and r :: string
  assume "digit_prefix s = Some x" and "(v, r) = x"
  then obtain n b where "drop n s = b # r"
    by (auto simp: digit_prefix_def split: option.splits prod.splits list.splits)
  then have "length s - n = Suc (length r)"
    by (auto dest: arg_cong [where f = length])
  then show "(r, s) \<in> measure length"
    by simp
qed

declare digit_values.simps [simp del]

definition int_of :: "string \<Rightarrow> nat" where
  "int_of s = foldl (\<lambda>acc v. 10 * acc + v) 0 (digit_values (strip s))"

text \<open>The range checks of the \<open>date\<close> constructor, which \<open>strptime\<close> calls on the result.\<close>

definition is_leap :: "nat \<Rightarrow> bool" where
  "is_leap y = (y mod 4 = 0 \<and> (y mod 100 \<noteq> 0 \<or> y mod 400 = 0))"

definition days_in_month :: "nat \<Rightarrow> nat \<Rightarrow> nat" where
  "days_in_month y m =
     (if m = 2 then (if is_leap y then 29 else 28)
      else if m \<in> {4, 6, 9, 11} then 30 else 31)"

definition check_date_fields :: "nat \<Rightarrow> nat \<Rightarrow> nat \<Rightarrow> bool" where
  "check_date_fields y m d =
     (1 \<le> y \<and> y \<le> 9999 \<and> 1 \<le> m \<and> m \<le> 12 \<and> 1 \<le> d \<and> d \<le> days_in_month y m)"

datatype tz = UTC

record datetime =
  year :: nat
  month :: nat
  day :: nat
  hour :: nat
  minute :: nat
  second :: nat
  microsecond :: nat
  tzinfo :: "tz option"

text \<open>
  \<open>datetime.strptime(s, '%m.%d.%Y')\<close>: \<open>ValueError\<close> when the expression does not match,
  when it matches less than the whole string, or when the numbers are not a date; otherwise
  midnight of that day, without a time zone.
\<close>

definition strptime :: "string \<Rightarrow> py_error + datetime" where
  "strptime data_string =
     (case format_regex_match data_string of
        None \<Rightarrow> Inl ValueError
      | Some (m, d, y, rest) \<Rightarrow>
          if rest \<noteq> [] then Inl ValueError
          else if \<not> check_date_fields (int_of y) (int_of m) (int_of d) then Inl ValueError
          else Inr \<lparr>year = int_of y, month = int_of m, day = int_of d, hour = 0, minute = 0,
                    second = 0, microsecond = 0, tzinfo = None\<rparr>)"

section \<open>The field extractor\<close>

text \<open>
  \<open>Info\<close> is the attrs class of the source. Each field has an \<open>instance_of\<close> validator,
  run by the constructor in the order of the fields: a value that is not a \<open>str\<close>
  (\<open>None\<close>, or a list of tokens) raises \<open>TypeError\<close>. The field \<open>id\<close> of the source is
  \<open>info_id\<close> here, and the others are prefixed likewise.
\<close>

record Info =
  info_id :: string
  info_title :: string
  info_description :: string
  info_enc :: string
  info_date :: datetime

definition new_Info ::
  "attr_value option \<Rightarrow> string option \<Rightarrow> string option \<Rightarrow> attr_value option \<Rightarrow> datetime
     \<Rightarrow> py_error + Info" where
  "new_Info i title description enc date =
     (case i of
        Some (Str id_str) \<Rightarrow>
          (case title of
             Some title_str \<Rightarrow>
               (case description of
                  Some description_str \<Rightarrow>
                    (case enc of
                       Some (Str enc_str) \<Rightarrow>
                         Inr \<lparr>info_id = id_str, info_title = title_str,
                              info_description = description_str, info_enc = enc_str,
                              info_date = date\<rparr>
                     | _ \<Rightarrow> Inl TypeError)
                | None \<Rightarrow> Inl TypeError)
           | None \<Rightarrow> Inl TypeError)
      | _ \<Rightarrow> Inl TypeError)"

text \<open>
  \<open>extract_info\<close>, statement by statement. A \<open>find\<close> that returns \<open>None\<close> makes the
  following \<open>.get\<close> or \<open>.string\<close> raise \<open>AttributeError\<close>, and so does \<open>.strip()\<close> on a
  \<open>.string\<close> that is \<open>None\<close>. The \<open>logger.debug\<close> calls print nothing at the level
  \<open>INFO\<close> that the module sets, and are left out.
\<close>

definition extract_info :: "node \<Rightarrow> py_error + Info" where
  "extract_info li =
     (case find_bs li ''a'' ''ep-item'' of
        None \<Rightarrow> Inl AttributeError
      | Some item \<Rightarrow>
     (let i = get item ''href'' in
      case find_bs li ''h3'' ''ep-row-title'' of
        None \<Rightarrow> Inl AttributeError
      | Some h3 \<Rightarrow>
     (let title = string_of h3 in
      case find_bs li ''p'' ''ep-row-desc'' of
        None \<Rightarrow> Inl AttributeError
      | Some p \<Rightarrow>
     (let description = string_of p in
      case find_bs li ''span'' ''ep-published'' of
        None \<Rightarrow> Inl AttributeError
      | Some span \<Rightarrow>
     (case string_of span of
        None \<Rightarrow> Inl AttributeError
      | Some published \<Rightarrow>
     (let date_str = strip published in
      case strptime date_str of
        Inl e \<Rightarrow> Inl e
      | Inr parsed \<Rightarrow>
     (let date = parsed\<lparr>tzinfo := Some UTC\<rparr> in
      case find_bs li ''a'' ''play-btn'' of
        None \<Rightarrow> Inl AttributeError
      | Some btn \<Rightarrow>
     (let enc = get btn ''data-mp3'' in
      new_Info i title description enc date))))))))"

section \<open>The entry selector\<close>

text \<open>
  \<open>gen_entries\<close> parses the body with \<open>BeautifulSoup(resp.text, "html.parser")\<close> and yields
  the \<open>tr\<close> tags in which \<open>find("span", class_="ep-published")\<close> finds a tag (a tag is
  true, \<open>None\<close> is false). The parser is the library's: it is the parameter \<open>parser\<close>, from
  the text to the root of the tree.
\<close>

definition gen_entries :: "(string \<Rightarrow> node) \<Rightarrow> Response \<Rightarrow> node list" where
  "gen_entries parser resp =
     (let soup = parser (resp_text resp)
      in filter (\<lambda>li. find_bs li ''span'' ''ep-published'' \<noteq> None) (find_all soup ''tr''))"

section \<open>The feed assembler\<close>

definition BASE_URL :: string where
  "BASE_URL = ''https://podcast.app''"

definition PG_URL :: string where
  "PG_URL = ''https://podcast.app/paul-graham-essays-audio-p1755465/?limit=250&offset=0''"

definition FEED_PATH :: string where
  "FEED_PATH = ''feed/pg.rss''"

text \<open>
  The state of a \<open>FeedGenerator\<close> and of a \<open>FeedEntry\<close>, as far as the program sets it:
  one field for each setter that is called. A field that was never set is \<open>None\<close>; links
  and entries are lists, in the order in which they were added.
\<close>

record link =
  href :: string
  rel :: string

record author =
  author_name :: string
  author_email :: string

record FeedEntry =
  fe_id :: "string option"
  fe_title :: "string option"
  fe_link :: "link list"
  fe_author :: "author list option"
  fe_content :: "string option"
  fe_updated :: "datetime option"
  fe_published :: "datetime option"

record FeedGenerator =
  fg_id :: "string option"
  fg_title :: "string option"
  fg_author :: "author list option"
  fg_link :: "link list"
  fg_logo :: "string option"
  fg_language :: "string option"
  fg_description :: "string option"
  fg_docs :: "string option"
  fg_entries :: "FeedEntry list"

definition new_FeedGenerator :: FeedGenerator where
  "new_FeedGenerator =
     \<lparr>fg_id = None, fg_title = None, fg_author = None, fg_link = [], fg_logo = None,
      fg_language = None, fg_description = None, fg_docs = None, fg_entries = []\<rparr>"

definition new_FeedEntry :: FeedEntry where
  "new_FeedEntry =
     \<lparr>fe_id = None, fe_title = None, fe_link = [], fe_author = None, fe_content = None,
      fe_updated = None, fe_published = None\<rparr>"

definition create_base_feed :: FeedGenerator where
  "create_base_feed =
     (let fg = new_FeedGenerator;
          fg = fg\<lparr>fg_id := Some PG_URL\<rparr>;
          fg = fg\<lparr>fg_title := Some ''Paul Graham Essays (Audio)''\<rparr>;
          fg = fg\<lparr>fg_link := fg_link fg @
                 [\<lparr>href = ''https://podcast.app/paul-graham-essays-audio-p1755465/'',
                   rel = ''self''\<rparr>]\<rparr>;
          fg = fg\<lparr>fg_logo :=
                 Some ''https://podcast-api-images.s3.amazonaws.com/podcast_logo_1755465_300x300.jpg''\<rparr>;
          fg = fg\<lparr>fg_language := Some ''en''\<rparr>;
          fg = fg\<lparr>fg_description := Some ''PG Podcast''\<rparr>;
          fg = fg\<lparr>fg_docs := Some ''http://www.rssboard.org/rss-specification''\<rparr>
      in fg)"

text \<open>
  \<open>fe.author(a)\<close> adds the authors \<open>a\<close> when \<open>a\<close> is not \<open>None\<close>; \<open>fg.author()\<close>
  without an argument reads the generator's authors.
\<close>

definition set_author :: "author list option \<Rightarrow> FeedEntry \<Rightarrow> FeedEntry" where
  "set_author a fe =
     (case a of
        None \<Rightarrow> fe
      | Some new \<Rightarrow>
          fe\<lparr>fe_author := Some ((case fe_author fe of None \<Rightarrow> [] | Some old \<Rightarrow> old) @ new)\<rparr>)"

text \<open>
  \<open>add_feed_item\<close>. The entry that \<open>fg.add_entry(order="append")\<close> returns is the last of
  the generator's entries, and the setters work on it in place: the model fills the entry
  and then appends it. \<open>now\<close> is the value that \<open>arrow.utcnow().datetime\<close> has in this
  call.
\<close>

definition add_feed_item :: "datetime \<Rightarrow> FeedGenerator \<Rightarrow> Info \<Rightarrow> FeedGenerator" where
  "add_feed_item now fg info =
     (let fe = new_FeedEntry;
          fe = fe\<lparr>fe_id := Some (BASE_URL @ info_id info)\<rparr>;
          fe = fe\<lparr>fe_title := Some (info_title info)\<rparr>;
          fe = fe\<lparr>fe_link := fe_link fe @ [\<lparr>href = info_enc info, rel = ''alternate''\<rparr>]\<rparr>;
          fe = set_author (fg_author fg) fe;
          fe = fe\<lparr>fe_content := Some (info_description info)\<rparr>;
          fe = fe\<lparr>fe_updated := Some now\<rparr>;
          fe = fe\<lparr>fe_published := Some (info_date info)\<rparr>
      in fg\<lparr>fg_entries := fg_entries fg @ [fe]\<rparr>)"

text \<open>
  The entry that section 4.4 of the specification describes for a record, written from its
  words for comparison with \<open>add_feed_item\<close>: the identifier is the base URL followed by
  the record's id, the link is the enclosure URL with the relation \<open>alternate\<close>, the
  content is the description, \<open>updated\<close> is the time of assembly and \<open>published\<close> the
  record's date; the title is the record's, and no author is set.
\<close>

definition spec_entry :: "datetime \<Rightarrow> Info \<Rightarrow> FeedEntry" where
  "spec_entry now record =
     \<lparr>fe_id = Some (BASE_URL @ info_id record), fe_title = Some (info_title record),
      fe_link = [\<lparr>href = info_enc record, rel = ''alternate''\<rparr>], fe_author = None,
      fe_content = Some (info_description record), fe_updated = Some now,
      fe_published = Some (info_date record)\<rparr>"

section \<open>The run\<close>

text \<open>
  What the program does not decide is the environment of a run: the answer of
  \<open>requests.get\<close> (a response, or an exception), the HTML parser, the clock
  (\<open>utcnow k\<close> is the time at the \<open>k\<close>-th reading) and \<open>FeedGenerator.rss_file\<close>, which
  gets the generator, the path and the files on disk, and returns the exception it raised,
  if any, with the files as it left them. The cache that \<open>install_cache\<close> sets up only
  changes how \<open>requests.get\<close> finds its answer.
\<close>

record env =
  rq_get :: "string \<Rightarrow> py_error + Response"
  parser :: "string \<Rightarrow> node"
  utcnow :: "nat \<Rightarrow> datetime"
  rss_file :: "FeedGenerator \<Rightarrow> string \<Rightarrow> (string \<Rightarrow> string option)
                 \<Rightarrow> py_error option \<times> (string \<Rightarrow> string option)"

datatype level = INFO | CRITICAL

text \<open>The state a run works on: the files on disk, by path, and the lines logged so far.\<close>

record world =
  files :: "string \<Rightarrow> string option"
  logged :: "(level \<times> string) list"

definition logger :: "level \<Rightarrow> string \<Rightarrow> world \<Rightarrow> world" where
  "logger lv msg w = w\<lparr>logged := logged w @ [(lv, msg)]\<rparr>"

definition get_release_pages :: "env \<Rightarrow> py_error + Response" where
  "get_release_pages e = rq_get e PG_URL"

definition write_feed :: "env \<Rightarrow> FeedGenerator \<Rightarrow> world \<Rightarrow> py_error option \<times> world" where
  "write_feed e fg w =
     (case rss_file e fg FEED_PATH (files w) of (raised, fs) \<Rightarrow> (raised, w\<lparr>files := fs\<rparr>))"

text \<open>
  The list comprehension of \<open>main\<close>: for each selected row in turn, \<open>extract_info\<close> and
  then \<open>add_feed_item\<close>; an exception of \<open>extract_info\<close> ends the loop and leaves
  \<open>main\<close>. \<open>k\<close> counts the readings of the clock.
\<close>

fun add_items :: "(nat \<Rightarrow> datetime) \<Rightarrow> nat \<Rightarrow> FeedGenerator \<Rightarrow> node list \<Rightarrow> py_error + FeedGenerator" where
  "add_items clock k fg [] = Inr fg"
| "add_items clock k fg (li # lis) =
     (case extract_info li of
        Inl err \<Rightarrow> Inl err
      | Inr info \<Rightarrow> add_items clock (Suc k) (add_feed_item (clock k) fg info) lis)"

text \<open>How a call of \<open>main\<close> ends: it returns (\<open>None\<close> or a number) or an exception leaves it.\<close>

datatype outcome = Returned "int option" | Raised py_error

definition main :: "env \<Rightarrow> world \<Rightarrow> outcome \<times> world" where
  "main e w =
     (case get_release_pages e of
        Inl err \<Rightarrow> (Raised err, w)
      | Inr resp_pg \<Rightarrow>
          if \<not> ok resp_pg then
            (Returned (Some 1),
             logger CRITICAL (''PG pages download failed: '' @ resp_report resp_pg) w)
          else
            (let w = logger INFO ''Download pages retrieved.'' w;
                 fg = create_base_feed;
                 w = logger INFO ''Base feed generator created'' w
             in case add_items (utcnow e) 0 fg (gen_entries (parser e) resp_pg) of
                  Inl err \<Rightarrow> (Raised err, w)
                | Inr fg \<Rightarrow>
                    (let w = logger INFO ''Articles added to feed'' w
                     in case write_feed e fg w of
                          (Some err, w) \<Rightarrow> (Raised err, w)
                        | (None, w) \<Rightarrow> (Returned None, logger INFO ''Feed written to disk'' w))))"

text \<open>
  \<open>sys.exit(main())\<close>: the exit status of the process is 0 when \<open>main\<close> returns \<open>None\<close>,
  the number when it returns one, and 1 when an exception was not caught.
\<close>

definition exit_status :: "outcome \<Rightarrow> int" where
  "exit_status out = (case out of Returned None \<Rightarrow> 0 | Returned (Some n) \<Rightarrow> n | Raised err \<Rightarrow> 1)"

section \<open>Example documents and runs\<close>

text \<open>
  An episode row as the listing page has it: the item anchor with the title heading inside,
  the description paragraph, the publication marker and the play button, in one cell. The
  children of the paragraph and the text of the marker are left open.
\<close>

definition episode_row :: "string \<Rightarrow> string \<Rightarrow> node list \<Rightarrow> string \<Rightarrow> string \<Rightarrow> node" where
  "episode_row h t desc_children date mp3 =
     Tag ''tr'' Map.empty
       [Tag ''td'' Map.empty
          [Tag ''a'' [''class'' \<mapsto> Multi [''ep-item''], ''href'' \<mapsto> Str h]
             [Tag ''h3'' [''class'' \<mapsto> Multi [''ep-row-title'']] [NavigableString t]],
           Tag ''p'' [''class'' \<mapsto> Multi [''ep-row-desc'']] desc_children,
           Tag ''span'' [''class'' \<mapsto> Multi [''ep-published'']] [NavigableString date],
           Tag ''a'' [''class'' \<mapsto> Multi [''play-btn''], ''data-mp3'' \<mapsto> Str mp3] []]]"

definition row_A :: node where
  "row_A = episode_row ''/ep/1'' ''Essay one'' [NavigableString ''First essay''] ''01.02.2023''
             ''https://cdn.example/1.mp3''"

definition row_C :: node where
  "row_C = episode_row ''/ep/2'' ''Essay two'' [NavigableString ''Second essay''] ''12.24.2022''
             ''https://cdn.example/2.mp3''"

text \<open>A header row: no publication marker.\<close>

definition row_header :: node where
  "row_header = Tag ''tr'' Map.empty [Tag ''th'' Map.empty [NavigableString ''Episode'']]"

text \<open>Row B has the marker and every field but the play button.\<close>

definition row_B :: node where
  "row_B =
     Tag ''tr'' Map.empty
       [Tag ''td'' Map.empty
          [Tag ''a'' [''class'' \<mapsto> Multi [''ep-item''], ''href'' \<mapsto> Str ''/ep/3'']
             [Tag ''h3'' [''class'' \<mapsto> Multi [''ep-row-title'']] [NavigableString ''Essay three'']],
           Tag ''p'' [''class'' \<mapsto> Multi [''ep-row-desc'']] [NavigableString ''Third essay''],
           Tag ''span'' [''class'' \<mapsto> Multi [''ep-published'']] [NavigableString ''01.03.2023'']]]"

text \<open>A row whose only element of class \<open>ep-published\<close> is a \<open>div\<close>, not a \<open>span\<close>.\<close>

definition row_div_marker :: node where
  "row_div_marker =
     Tag ''tr'' Map.empty
       [Tag ''td'' Map.empty
          [Tag ''div'' [''class'' \<mapsto> Multi [''ep-published'']] [NavigableString ''01.02.2023'']]]"

text \<open>A row like row A whose title is a \<open>h2\<close> of class \<open>ep-row-title\<close>.\<close>

definition row_h2_title :: node where
  "row_h2_title =
     Tag ''tr'' Map.empty
       [Tag ''td'' Map.empty
          [Tag ''a'' [''class'' \<mapsto> Multi [''ep-item''], ''href'' \<mapsto> Str ''/ep/4'']
             [Tag ''h2'' [''class'' \<mapsto> Multi [''ep-row-title'']] [NavigableString ''Essay four'']],
           Tag ''p'' [''class'' \<mapsto> Multi [''ep-row-desc'']] [NavigableString ''Fourth essay''],
           Tag ''span'' [''class'' \<mapsto> Multi [''ep-published'']] [NavigableString ''01.04.2023''],
           Tag ''a'' [''class'' \<mapsto> Multi [''play-btn''], ''data-mp3'' \<mapsto> Str ''https://cdn.example/4.mp3''] []]]"

definition soup_of :: "node list \<Rightarrow> node" where
  "soup_of rows = Tag ''[document]'' Map.empty [Tag ''table'' Map.empty rows]"

text \<open>
  An environment for examples: the fetch answers \<open>resp\<close>, the parser gives \<open>soup\<close> for any
  text, the clock shows second \<open>k\<close> of 1 January 2024 at its \<open>k\<close>-th reading, and the
  writer puts the entry identifiers, one after the other, into the file and does not raise.
\<close>

definition example_now :: "nat \<Rightarrow> datetime" where
  "example_now k =
     \<lparr>year = 2024, month = 1, day = 1, hour = 0, minute = 0, second = k, microsecond = 0,
      tzinfo = Some UTC\<rparr>"

definition example_rss :: "FeedGenerator \<Rightarrow> string" where
  "example_rss fg = concat (map (\<lambda>fe. case fe_id fe of None \<Rightarrow> [] | Some i \<Rightarrow> i) (fg_entries fg))"

definition example_env :: "Response \<Rightarrow> node \<Rightarrow> env" where
  "example_env resp soup =
     \<lparr>rq_get = (\<lambda>url. Inr resp), parser = (\<lambda>txt. soup), utcnow = example_now,
      rss_file = (\<lambda>fg path fs. (None, fs(path \<mapsto> example_rss fg)))\<rparr>"

definition example_resp :: "int \<Rightarrow> string \<Rightarrow> Response" where
  "example_resp code phrase = \<lparr>status_code = code, reason = phrase, resp_text = ''<table/>''\<rparr>"

definition world0 :: world where
  "world0 = \<lparr>files = Map.empty, logged = []\<rparr>"

text \<open>A disk on which an earlier run has left a feed file.\<close>

definition world1 :: world where
  "world1 = \<lparr>files = [FEED_PATH \<mapsto> ''<rss>old</rss>''], logged = []\<rparr>"

text \<open>
  The date \<open>03.15.2024\<close> with the digit 5 of the day and the four digits of the year
  written in Arabic-Indic digits (U+0660 to U+0669), after an em space (U+2003) and before an
  ideographic space (U+3000).
\<close>

definition arabic_indic_date :: string where
  "arabic_indic_date =
     utf8_encode 8195 @ ''03.1'' @ utf8_encode 1637 @ ''.''
     @ utf8_encode 1634 @ utf8_encode 1632 @ utf8_encode 1634 @ utf8_encode 1636
     @ utf8_encode 12288"

section \<open>The tables of the Unicode database\<close>

lemma char_eq_char_of: "(c = char_of (n::nat)) = (of_char c = n mod 256)"
  by (metis char_of_char char_of_mod_256 of_char_of)

lemma char_of_eq_char: "(char_of (n::nat) = c) = (of_char c = n mod 256)"
  by (metis char_of_char char_of_mod_256 of_char_of)

text \<open>The white-space table holds the encodings of the white-space code points.\<close>

lemma whitespace_encodings: "whitespace = map utf8_encode whitespace_code_points"
  by (simp add: whitespace_def whitespace_code_points_def utf8_encode_def char_eq_char_of)

text \<open>
  The table of the decimal digits holds, for each run, the encoding of its digit 0 without
  the last character, that last character, and the last character of its digit 9.
\<close>

lemma decimal_runs_encodings:
  "decimal_runs =
     map (\<lambda>start. (butlast (utf8_encode start), last (utf8_encode start),
                    last (utf8_encode (start + 9))))
       decimal_starts"
  by (simp add: decimal_runs_def decimal_starts_def utf8_encode_def char_eq_char_of)

section \<open>Properties of the page fetch\<close>

text \<open>
  \<open>Response.ok\<close> is false exactly for the status codes from 400 to 599.
\<close>

lemma ok_iff: "ok resp \<longleftrightarrow> \<not> (400 \<le> status_code resp \<and> status_code resp < 600)"
  by (auto simp: ok_def raise_for_status_def)

lemma main_not_ok:
  assumes "rq_get e PG_URL = Inr resp" and "\<not> ok resp"
  shows "main e w = (Returned (Some 1),
          w\<lparr>logged := logged w @ [(CRITICAL, ''PG pages download failed: '' @ resp_report resp)]\<rparr>)"
  using assms by (simp add: main_def get_release_pages_def logger_def)

lemma main_ok_outcome:
  assumes "rq_get e PG_URL = Inr resp" and "ok resp"
  shows "fst (main e w) \<noteq> Returned (Some 1)"
  using assms
  by (simp add: main_def get_release_pages_def Let_def split: sum.splits prod.splits option.splits)

lemma str_int_503: "str_int 503 = ''503''"
  by code_simp

text \<open>
  Claim C1 as stated makes the 2xx class the successful one. A response with status 304 is
  not in that class, and the run goes on: \<open>main\<close> returns \<open>None\<close> and the feed file is
  written.
\<close>

theorem C1_counterexample:
  "\<not> (200 \<le> status_code (example_resp 304 ''Not Modified'')
        \<and> status_code (example_resp 304 ''Not Modified'') < 300)
   \<and> fst (main (example_env (example_resp 304 ''Not Modified'') (soup_of [row_A])) world0)
       = Returned None
   \<and> files world0 FEED_PATH = None
   \<and> files (snd (main (example_env (example_resp 304 ''Not Modified'') (soup_of [row_A])) world0))
       FEED_PATH = Some ''https://podcast.app/ep/1''"
  by code_simp

text \<open>
  Claim C1, amended: the run treats the fetch as failed if and only if the status code is
  from 400 to 599. For such a status \<open>main\<close> logs one critical line, the report with
  the numeric status code and the reason phrase, returns 1, which is the exit status, and
  leaves every file as it was.
\<close>

theorem C1_fetch_status:
  assumes "rq_get e PG_URL = Inr resp"
  shows "(fst (main e w) = Returned (Some 1))
           = (400 \<le> status_code resp \<and> status_code resp < 600)
       \<and> (400 \<le> status_code resp \<and> status_code resp < 600 \<longrightarrow>
            main e w = (Returned (Some 1),
               w\<lparr>logged := logged w @
                  [(CRITICAL, ''PG pages download failed: '' @ str_int (status_code resp)
                                @ '' '' @ reason resp)]\<rparr>)
            \<and> exit_status (fst (main e w)) = 1
            \<and> files (snd (main e w)) = files w)"
proof (cases "ok resp")
  case True
  with assms have "fst (main e w) \<noteq> Returned (Some 1)" by (rule main_ok_outcome)
  with True show ?thesis by (auto simp: ok_iff)
next
  case False
  with assms have "main e w = (Returned (Some 1),
      w\<lparr>logged := logged w @ [(CRITICAL, ''PG pages download failed: '' @ resp_report resp)]\<rparr>)"
    by (rule main_not_ok)
  with False show ?thesis by (simp add: ok_iff resp_report_def exit_status_def)
qed

text \<open>The scenario of the specification: a fetch that returns 503.\<close>

theorem C1_fetch_status_witness:
  "rq_get (example_env (example_resp 503 ''Service Unavailable'') (soup_of [row_A])) PG_URL
     = Inr (example_resp 503 ''Service Unavailable'')
   \<and> main (example_env (example_resp 503 ''Service Unavailable'') (soup_of [row_A])) world0
     = (Returned (Some 1),
        world0\<lparr>logged := [(CRITICAL, ''PG pages download failed: 503 Service Unavailable'')]\<rparr>)
   \<and> exit_status (fst (main (example_env (example_resp 503 ''Service Unavailable'')
                                (soup_of [row_A])) world0)) = 1
   \<and> files (snd (main (example_env (example_resp 503 ''Service Unavailable'')
                                (soup_of [row_A])) world0)) = files world0"
proof -
  let ?resp = "example_resp 503 ''Service Unavailable''"
  let ?e = "example_env ?resp (soup_of [row_A])"
  have fetched: "rq_get ?e PG_URL = Inr ?resp"
    by (simp add: example_env_def)
  have code: "400 \<le> status_code ?resp \<and> status_code ?resp < 600"
    by (simp add: example_resp_def)
  have report: "str_int (status_code ?resp) @ '' '' @ reason ?resp = ''503 Service Unavailable''"
    by (simp add: example_resp_def str_int_503)
  from C1_fetch_status [OF fetched, of world0] code
  have "main ?e world0 = (Returned (Some 1),
          world0\<lparr>logged := logged world0 @
            [(CRITICAL, ''PG pages download failed: '' @ str_int (status_code ?resp)
                          @ '' '' @ reason ?resp)]\<rparr>)
        \<and> exit_status (fst (main ?e world0)) = 1
        \<and> files (snd (main ?e world0)) = files world0"
    by blast
  with fetched report show ?thesis
    by (simp add: world0_def exit_status_def)
qed

section \<open>Properties of the entry selector\<close>

lemma find_bs_None_iff:
  "find_bs li nm cls = None \<longleftrightarrow> (\<forall>d\<in>set (descendants li). \<not> search_tag nm cls d)"
proof -
  have "find_bs li nm cls = None \<longleftrightarrow> filter (search_tag nm cls) (descendants li) = []"
    by (simp add: find_bs_def split: list.splits)
  then show ?thesis by (simp add: filter_empty_conv)
qed

lemma find_bs_Some:
  assumes "find_bs li nm cls = Some t"
  shows "t \<in> set (descendants li) \<and> search_tag nm cls t"
proof -
  from assms obtain ts where "filter (search_tag nm cls) (descendants li) = t # ts"
    by (auto simp: find_bs_def split: list.splits)
  then have "t \<in> set (filter (search_tag nm cls) (descendants li))" by simp
  then show ?thesis by simp
qed

lemma search_tag_iff:
  "search_tag nm cls t \<longleftrightarrow> has_name nm t \<and> matches_attr (get t ''class'') cls"
  by (cases t) auto

lemma gen_entries_filter:
  "gen_entries parse resp =
     filter (\<lambda>li. has_name ''tr'' li
                 \<and> (\<exists>m\<in>set (descendants li). search_tag ''span'' ''ep-published'' m))
       (descendants (parse (resp_text resp)))"
proof -
  have "\<And>li. (find_bs li ''span'' ''ep-published'' \<noteq> None)
            = (\<exists>m\<in>set (descendants li). search_tag ''span'' ''ep-published'' m)"
    by (simp add: find_bs_None_iff)
  then show ?thesis
    by (simp add: gen_entries_def find_all_def Let_def conj_commute)
qed

text \<open>
  Claim C5: the selector yields exactly the \<open>tr\<close> tags of the document that have a
  descendant \<open>span\<close> of class \<open>ep-published\<close>, in document order; a row without such
  a descendant is not among them, and raises nothing.
\<close>

theorem C5_filter_completeness:
  "gen_entries parse resp =
     filter (\<lambda>li. has_name ''tr'' li
                 \<and> (\<exists>m\<in>set (descendants li). search_tag ''span'' ''ep-published'' m))
       (descendants (parse (resp_text resp)))
   \<and> ((\<forall>m\<in>set (descendants row). \<not> search_tag ''span'' ''ep-published'' m)
        \<longrightarrow> row \<notin> set (gen_entries parse resp))"
  by (simp add: gen_entries_filter)

text \<open>A header row, row A, a row with a \<open>div\<close> marker and row B: A and B are selected.\<close>

theorem C5_filter_completeness_witness:
  "gen_entries (\<lambda>txt. soup_of [row_header, row_A, row_div_marker, row_B]) (example_resp 200 ''OK'')
     = [row_A, row_B]
   \<and> find_bs row_header ''span'' ''ep-published'' = None
   \<and> row_header \<notin> set (gen_entries (\<lambda>txt. soup_of [row_header, row_A, row_div_marker, row_B])
                                   (example_resp 200 ''OK''))"
proof -
  have no_marker: "\<forall>m\<in>set (descendants row_header). \<not> search_tag ''span'' ''ep-published'' m"
    by (simp add: row_header_def)
  then have not_found: "find_bs row_header ''span'' ''ep-published'' = None"
    by (simp only: find_bs_None_iff)
  have selected: "filter (\<lambda>li. has_name ''tr'' li
                 \<and> (\<exists>m\<in>set (descendants li). search_tag ''span'' ''ep-published'' m))
          (descendants (soup_of [row_header, row_A, row_div_marker, row_B])) = [row_A, row_B]"
    by (simp add: soup_of_def row_header_def row_A_def row_div_marker_def row_B_def
          episode_row_def)
  note c5 = C5_filter_completeness [of "\<lambda>txt. soup_of [row_header, row_A, row_div_marker, row_B]"
      "example_resp 200 ''OK''" row_header]
  from c5 selected
  have "gen_entries (\<lambda>txt. soup_of [row_header, row_A, row_div_marker, row_B])
          (example_resp 200 ''OK'') = [row_A, row_B]"
    by simp
  moreover from c5 no_marker
  have "row_header \<notin> set (gen_entries (\<lambda>txt. soup_of [row_header, row_A, row_div_marker, row_B])
                                   (example_resp 200 ''OK''))"
    by blast
  ultimately show ?thesis using not_found by blast
qed

section \<open>Properties of the field extractor\<close>

lemma extract_info_Inr_iff:
  "extract_info li = Inr info \<longleftrightarrow>
     (\<exists>item h3 p span btn published parsed.
        find_bs li ''a'' ''ep-item'' = Some item \<and>
        find_bs li ''h3'' ''ep-row-title'' = Some h3 \<and>
        find_bs li ''p'' ''ep-row-desc'' = Some p \<and>
        find_bs li ''span'' ''ep-published'' = Some span \<and>
        find_bs li ''a'' ''play-btn'' = Some btn \<and>
        get item ''href'' = Some (Str (info_id info)) \<and>
        string_of h3 = Some (info_title info) \<and>
        string_of p = Some (info_description info) \<and>
        string_of span = Some published \<and>
        strptime (strip published) = Inr parsed \<and>
        info_date info = parsed\<lparr>tzinfo := Some UTC\<rparr> \<and>
        get btn ''data-mp3'' = Some (Str (info_enc info)))"
  unfolding extract_info_def new_Info_def Let_def
  by (cases info) (auto split: option.splits sum.splits attr_value.splits)

lemma not_Inr_fails: "(\<forall>info. x \<noteq> Inr info) \<Longrightarrow> \<exists>err. x = Inl err"
  by (cases x) auto

lemma strptime_error: "strptime s = Inl err \<Longrightarrow> err = ValueError"
  by (auto simp: strptime_def split: option.splits prod.splits if_splits)

lemma extract_info_error:
  "extract_info li = Inl err \<Longrightarrow> err \<in> {AttributeError, TypeError, ValueError}"
  unfolding extract_info_def new_Info_def Let_def
  by (auto split: option.splits sum.splits attr_value.splits dest: strptime_error)

lemma extract_info_all_or_nothing:
  "(find_bs li ''a'' ''ep-item'' = None \<or> find_bs li ''h3'' ''ep-row-title'' = None
      \<or> find_bs li ''p'' ''ep-row-desc'' = None \<or> find_bs li ''span'' ''ep-published'' = None
      \<or> find_bs li ''a'' ''play-btn'' = None
      \<longrightarrow> (\<exists>err. extract_info li = Inl err))
   \<and> ((\<exists>item. find_bs li ''a'' ''ep-item'' = Some item \<and> get item ''href'' = None)
      \<or> (\<exists>btn. find_bs li ''a'' ''play-btn'' = Some btn \<and> get btn ''data-mp3'' = None)
      \<longrightarrow> (\<exists>err. extract_info li = Inl err))
   \<and> ((\<exists>h3. find_bs li ''h3'' ''ep-row-title'' = Some h3 \<and> string_of h3 = None)
      \<or> (\<exists>p. find_bs li ''p'' ''ep-row-desc'' = Some p \<and> string_of p = None)
      \<or> (\<exists>span. find_bs li ''span'' ''ep-published'' = Some span \<and> string_of span = None)
      \<or> (\<exists>span published err. find_bs li ''span'' ''ep-published'' = Some span
            \<and> string_of span = Some published \<and> strptime (strip published) = Inl err)
      \<longrightarrow> (\<exists>err. extract_info li = Inl err))
   \<and> (\<forall>err. extract_info li = Inl err \<longrightarrow> err \<in> {AttributeError, TypeError, ValueError})
   \<and> (\<forall>info. extract_info li = Inr info \<longleftrightarrow>
        (\<exists>item h3 p span btn published parsed.
           find_bs li ''a'' ''ep-item'' = Some item \<and>
           find_bs li ''h3'' ''ep-row-title'' = Some h3 \<and>
           find_bs li ''p'' ''ep-row-desc'' = Some p \<and>
           find_bs li ''span'' ''ep-published'' = Some span \<and>
           find_bs li ''a'' ''play-btn'' = Some btn \<and>
           get item ''href'' = Some (Str (info_id info)) \<and>
           string_of h3 = Some (info_title info) \<and>
           string_of p = Some (info_description info) \<and>
           string_of span = Some published \<and>
           strptime (strip published) = Inr parsed \<and>
           info_date info = parsed\<lparr>tzinfo := Some UTC\<rparr> \<and>
           get btn ''data-mp3'' = Some (Str (info_enc info))))"
proof (intro conjI impI allI)
  assume "find_bs li ''a'' ''ep-item'' = None \<or> find_bs li ''h3'' ''ep-row-title'' = None
      \<or> find_bs li ''p'' ''ep-row-desc'' = None \<or> find_bs li ''span'' ''ep-published'' = None
      \<or> find_bs li ''a'' ''play-btn'' = None"
  then have "\<forall>info. extract_info li \<noteq> Inr info"
    by (auto simp: extract_info_Inr_iff)
  then show "\<exists>err. extract_info li = Inl err" by (rule not_Inr_fails)
next
  assume "(\<exists>item. find_bs li ''a'' ''ep-item'' = Some item \<and> get item ''href'' = None)
      \<or> (\<exists>btn. find_bs li ''a'' ''play-btn'' = Some btn \<and> get btn ''data-mp3'' = None)"
  then have "\<forall>info. extract_info li \<noteq> Inr info"
    by (auto simp: extract_info_Inr_iff)
  then show "\<exists>err. extract_info li = Inl err" by (rule not_Inr_fails)
next
  assume "(\<exists>h3. find_bs li ''h3'' ''ep-row-title'' = Some h3 \<and> string_of h3 = None)
      \<or> (\<exists>p. find_bs li ''p'' ''ep-row-desc'' = Some p \<and> string_of p = None)
      \<or> (\<exists>span. find_bs li ''span'' ''ep-published'' = Some span \<and> string_of span = None)
      \<or> (\<exists>span published err. find_bs li ''span'' ''ep-published'' = Some span
            \<and> string_of span = Some published \<and> strptime (strip published) = Inl err)"
  then have "\<forall>info. extract_info li \<noteq> Inr info"
    by (auto simp: extract_info_Inr_iff)
  then show "\<exists>err. extract_info li = Inl err" by (rule not_Inr_fails)
next
  fix err assume "extract_info li = Inl err"
  then show "err \<in> {AttributeError, TypeError, ValueError}" by (rule extract_info_error)
next
  fix info
  show "extract_info li = Inr info \<longleftrightarrow>
        (\<exists>item h3 p span btn published parsed.
           find_bs li ''a'' ''ep-item'' = Some item \<and>
           find_bs li ''h3'' ''ep-row-title'' = Some h3 \<and>
           find_bs li ''p'' ''ep-row-desc'' = Some p \<and>
           find_bs li ''span'' ''ep-published'' = Some span \<and>
           find_bs li ''a'' ''play-btn'' = Some btn \<and>
           get item ''href'' = Some (Str (info_id info)) \<and>
           string_of h3 = Some (info_title info) \<and>
           string_of p = Some (info_description info) \<and>
           string_of span = Some published \<and>
           strptime (strip published) = Inr parsed \<and>
           info_date info = parsed\<lparr>tzinfo := Some UTC\<rparr> \<and>
           get btn ''data-mp3'' = Some (Str (info_enc info)))"
    by (rule extract_info_Inr_iff)
qed

lemma extract_info_exceptions:
  "(find_bs li ''a'' ''ep-item'' = None \<or> find_bs li ''h3'' ''ep-row-title'' = None
      \<or> find_bs li ''p'' ''ep-row-desc'' = None \<or> find_bs li ''span'' ''ep-published'' = None
      \<longrightarrow> extract_info li = Inl AttributeError)
   \<and> (find_bs li ''a'' ''ep-item'' = Some item \<and> find_bs li ''h3'' ''ep-row-title'' = Some h3
      \<and> find_bs li ''p'' ''ep-row-desc'' = Some p \<and> find_bs li ''span'' ''ep-published'' = Some span
      \<longrightarrow> (string_of span = None \<longrightarrow> extract_info li = Inl AttributeError)
        \<and> (\<forall>published err. string_of span = Some published
               \<and> strptime (strip published) = Inl err
             \<longrightarrow> extract_info li = Inl ValueError)
        \<and> (\<forall>published parsed. string_of span = Some published
               \<and> strptime (strip published) = Inr parsed
             \<longrightarrow> (find_bs li ''a'' ''play-btn'' = None \<longrightarrow> extract_info li = Inl AttributeError)
               \<and> (\<forall>btn. find_bs li ''a'' ''play-btn'' = Some btn
                      \<and> ((\<forall>i. get item ''href'' \<noteq> Some (Str i)) \<or> string_of h3 = None
                          \<or> string_of p = None \<or> (\<forall>e. get btn ''data-mp3'' \<noteq> Some (Str e)))
                    \<longrightarrow> extract_info li = Inl TypeError)))"
  unfolding extract_info_def new_Info_def Let_def
  by (auto split: option.splits attr_value.splits dest: strptime_error)

text \<open>
  Claim C3 as stated lets every row succeed that has the five elements and the two
  attributes. A row with all of them, and a marker text that parses, still fails when its
  description paragraph has no text: the paragraph has no children, its \<open>.string\<close> is
  \<open>None\<close>, and the constructor of \<open>Info\<close> raises \<open>TypeError\<close>.
\<close>

theorem C3_counterexample:
  "find_bs (episode_row ''/ep/8'' ''Essay eight'' [] ''03.15.2024'' ''https://cdn.example/8.mp3'')
       ''a'' ''ep-item'' \<noteq> None
   \<and> find_bs (episode_row ''/ep/8'' ''Essay eight'' [] ''03.15.2024'' ''https://cdn.example/8.mp3'')
       ''h3'' ''ep-row-title'' \<noteq> None
   \<and> find_bs (episode_row ''/ep/8'' ''Essay eight'' [] ''03.15.2024'' ''https://cdn.example/8.mp3'')
       ''p'' ''ep-row-desc'' \<noteq> None
   \<and> find_bs (episode_row ''/ep/8'' ''Essay eight'' [] ''03.15.2024'' ''https://cdn.example/8.mp3'')
       ''span'' ''ep-published'' \<noteq> None
   \<and> find_bs (episode_row ''/ep/8'' ''Essay eight'' [] ''03.15.2024'' ''https://cdn.example/8.mp3'')
       ''a'' ''play-btn'' \<noteq> None
   \<and> get (the (find_bs (episode_row ''/ep/8'' ''Essay eight'' [] ''03.15.2024''
                          ''https://cdn.example/8.mp3'') ''a'' ''ep-item'')) ''href''
       = Some (Str ''/ep/8'')
   \<and> get (the (find_bs (episode_row ''/ep/8'' ''Essay eight'' [] ''03.15.2024''
                          ''https://cdn.example/8.mp3'') ''a'' ''play-btn'')) ''data-mp3''
       = Some (Str ''https://cdn.example/8.mp3'')
   \<and> string_of (the (find_bs (episode_row ''/ep/8'' ''Essay eight'' [] ''03.15.2024''
                          ''https://cdn.example/8.mp3'') ''span'' ''ep-published''))
       = Some ''03.15.2024''
   \<and> strptime (strip ''03.15.2024'')
       = Inr \<lparr>year = 2024, month = 3, day = 15, hour = 0, minute = 0, second = 0,
              microsecond = 0, tzinfo = None\<rparr>
   \<and> extract_info (episode_row ''/ep/8'' ''Essay eight'' [] ''03.15.2024''
                     ''https://cdn.example/8.mp3'') = Inl TypeError"
proof (intro conjI)
  show "strptime (strip ''03.15.2024'')
       = Inr \<lparr>year = 2024, month = 3, day = 15, hour = 0, minute = 0, second = 0,
              microsecond = 0, tzinfo = None\<rparr>"
    by code_simp
  show "extract_info (episode_row ''/ep/8'' ''Essay eight'' [] ''03.15.2024''
                     ''https://cdn.example/8.mp3'') = Inl TypeError"
    by code_simp
qed (simp_all add: find_bs_def episode_row_def)

text \<open>
  Claim C3, amended: extraction fails when one of the five elements is not found, when the
  item anchor has no \<open>href\<close> or the play button no \<open>data-mp3\<close>, when the title heading,
  the description paragraph or the marker has no string (no child, or several), or when the
  marker's text is not a date. A failure is one of the three exceptions
  \<open>AttributeError\<close>, \<open>TypeError\<close> and \<open>ValueError\<close> and yields no record. A record is
  returned exactly when every element, attribute and string is there and the date parses,
  and its five fields are these values. The exception is \<open>AttributeError\<close> for an element
  that is not found or a marker without string, \<open>ValueError\<close> for a marker text that does
  not parse, and \<open>TypeError\<close> for a missing attribute or a title or description without
  string, the first of these in the order of the statements of \<open>extract_info\<close>.
\<close>

theorem C3_extract_all_or_nothing:
  "((find_bs li ''a'' ''ep-item'' = None \<or> find_bs li ''h3'' ''ep-row-title'' = None
       \<or> find_bs li ''p'' ''ep-row-desc'' = None \<or> find_bs li ''span'' ''ep-published'' = None
       \<or> find_bs li ''a'' ''play-btn'' = None
       \<longrightarrow> (\<exists>err. extract_info li = Inl err))
    \<and> ((\<exists>item. find_bs li ''a'' ''ep-item'' = Some item \<and> get item ''href'' = None)
       \<or> (\<exists>btn. find_bs li ''a'' ''play-btn'' = Some btn \<and> get btn ''data-mp3'' = None)
       \<longrightarrow> (\<exists>err. extract_info li = Inl err))
    \<and> ((\<exists>h3. find_bs li ''h3'' ''ep-row-title'' = Some h3 \<and> string_of h3 = None)
       \<or> (\<exists>p. find_bs li ''p'' ''ep-row-desc'' = Some p \<and> string_of p = None)
       \<or> (\<exists>span. find_bs li ''span'' ''ep-published'' = Some span \<and> string_of span = None)
       \<or> (\<exists>span published err. find_bs li ''span'' ''ep-published'' = Some span
             \<and> string_of span = Some published \<and> strptime (strip published) = Inl err)
       \<longrightarrow> (\<exists>err. extract_info li = Inl err))
    \<and> (\<forall>err. extract_info li = Inl err \<longrightarrow> err \<in> {AttributeError, TypeError, ValueError})
    \<and> (\<forall>info. extract_info li = Inr info \<longleftrightarrow>
         (\<exists>item h3 p span btn published parsed.
            find_bs li ''a'' ''ep-item'' = Some item \<and>
            find_bs li ''h3'' ''ep-row-title'' = Some h3 \<and>
            find_bs li ''p'' ''ep-row-desc'' = Some p \<and>
            find_bs li ''span'' ''ep-published'' = Some span \<and>
            find_bs li ''a'' ''play-btn'' = Some btn \<and>
            get item ''href'' = Some (Str (info_id info)) \<and>
            string_of h3 = Some (info_title info) \<and>
            string_of p = Some (info_description info) \<and>
            string_of span = Some published \<and>
            strptime (strip published) = Inr parsed \<and>
            info_date info = parsed\<lparr>tzinfo := Some UTC\<rparr> \<and>
            get btn ''data-mp3'' = Some (Str (info_enc info)))))
   \<and> ((find_bs li ''a'' ''ep-item'' = None \<or> find_bs li ''h3'' ''ep-row-title'' = None
          \<or> find_bs li ''p'' ''ep-row-desc'' = None \<or> find_bs li ''span'' ''ep-published'' = None
          \<longrightarrow> extract_info li = Inl AttributeError)
       \<and> (find_bs li ''a'' ''ep-item'' = Some item \<and> find_bs li ''h3'' ''ep-row-title'' = Some h3
          \<and> find_bs li ''p'' ''ep-row-desc'' = Some p \<and> find_bs li ''span'' ''ep-published'' = Some span
          \<longrightarrow> (string_of span = None \<longrightarrow> extract_info li = Inl AttributeError)
            \<and> (\<forall>published err. string_of span = Some published
                   \<and> strptime (strip published) = Inl err
                 \<longrightarrow> extract_info li = Inl ValueError)
            \<and> (\<forall>published parsed. string_of span = Some published
                   \<and> strptime (strip published) = Inr parsed
                 \<longrightarrow> (find_bs li ''a'' ''play-btn'' = None \<longrightarrow> extract_info li = Inl AttributeError)
                   \<and> (\<forall>btn. find_bs li ''a'' ''play-btn'' = Some btn
                          \<and> ((\<forall>i. get item ''href'' \<noteq> Some (Str i)) \<or> string_of h3 = None
                              \<or> string_of p = None \<or> (\<forall>e. get btn ''data-mp3'' \<noteq> Some (Str e)))
                        \<longrightarrow> extract_info li = Inl TypeError))))"
  by (rule conjI [OF extract_info_all_or_nothing extract_info_exceptions])

lemma find_bs_row_B: "find_bs row_B ''a'' ''play-btn'' = None"
  by (simp add: find_bs_def row_B_def)

lemma extract_info_row_A:
  "extract_info row_A =
     Inr \<lparr>info_id = ''/ep/1'', info_title = ''Essay one'', info_description = ''First essay'',
          info_enc = ''https://cdn.example/1.mp3'',
          info_date = \<lparr>year = 2023, month = 1, day = 2, hour = 0, minute = 0, second = 0,
                       microsecond = 0, tzinfo = Some UTC\<rparr>\<rparr>"
  by code_simp

text \<open>Row B, without the play button, fails; row A yields its five fields.\<close>

theorem C3_extract_all_or_nothing_witness:
  "find_bs row_B ''a'' ''play-btn'' = None \<and> (\<exists>err. extract_info row_B = Inl err)
   \<and> (\<exists>info. extract_info row_A = Inr info \<and> info_id info = ''/ep/1''
        \<and> info_title info = ''Essay one'' \<and> info_description info = ''First essay''
        \<and> info_enc info = ''https://cdn.example/1.mp3''
        \<and> (\<exists>item. find_bs row_A ''a'' ''ep-item'' = Some item
               \<and> get item ''href'' = Some (Str (info_id info))))"
proof -
  note c3 = C3_extract_all_or_nothing [of row_B, THEN conjunct1]
  from c3 find_bs_row_B have "\<exists>err. extract_info row_B = Inl err" by blast
  moreover
  from C3_extract_all_or_nothing [of row_A, THEN conjunct1] extract_info_row_A
  have "\<exists>item. find_bs row_A ''a'' ''ep-item'' = Some item
          \<and> get item ''href'' = Some (Str ''/ep/1'')"
    by (metis Info.select_convs(1))
  ultimately show ?thesis using find_bs_row_B extract_info_row_A by simp
qed

section \<open>The description field\<close>

text \<open>
  Claim C8 as stated lets a row with an empty description paragraph succeed with the empty
  string. A paragraph without text has no children, its \<open>.string\<close> is \<open>None\<close>, and the
  validator of the description field raises \<open>TypeError\<close>, with every other field in place.
\<close>

theorem C8_counterexample:
  "find_bs (episode_row ''/ep/5'' ''Essay five'' [] ''03.15.2024'' ''https://cdn.example/5.mp3'')
      ''p'' ''ep-row-desc''
     = Some (Tag ''p'' [''class'' \<mapsto> Multi [''ep-row-desc'']] [])
   \<and> extract_info (episode_row ''/ep/5'' ''Essay five'' [] ''03.15.2024''
                     ''https://cdn.example/5.mp3'') = Inl TypeError"
proof
  show "find_bs (episode_row ''/ep/5'' ''Essay five'' [] ''03.15.2024'' ''https://cdn.example/5.mp3'')
      ''p'' ''ep-row-desc'' = Some (Tag ''p'' [''class'' \<mapsto> Multi [''ep-row-desc'']] [])"
    by (simp add: find_bs_def episode_row_def)
  show "extract_info (episode_row ''/ep/5'' ''Essay five'' [] ''03.15.2024''
                     ''https://cdn.example/5.mp3'') = Inl TypeError"
    by code_simp
qed

text \<open>
  Claim C8, amended: for a row whose description paragraph is found, a record that is
  returned has the paragraph's string as its description; when the paragraph has no string,
  as a paragraph without children does, extraction fails; when it has one (the empty string
  of an empty text node included) and the other four fields are there, extraction succeeds
  with that string as the description.
\<close>

theorem C8_description:
  assumes "find_bs li ''p'' ''ep-row-desc'' = Some p"
  shows "(\<forall>info. extract_info li = Inr info \<longrightarrow> string_of p = Some (info_description info))
       \<and> (string_of p = None \<longrightarrow> (\<exists>err. extract_info li = Inl err))
       \<and> (\<forall>nm at. p = Tag nm at [] \<longrightarrow> string_of p = None)
       \<and> (\<forall>item h3 span btn i t published parsed enc d.
            find_bs li ''a'' ''ep-item'' = Some item \<and> get item ''href'' = Some (Str i)
            \<and> find_bs li ''h3'' ''ep-row-title'' = Some h3 \<and> string_of h3 = Some t
            \<and> find_bs li ''span'' ''ep-published'' = Some span
            \<and> string_of span = Some published \<and> strptime (strip published) = Inr parsed
            \<and> find_bs li ''a'' ''play-btn'' = Some btn \<and> get btn ''data-mp3'' = Some (Str enc)
            \<and> string_of p = Some d
            \<longrightarrow> extract_info li =
                  Inr \<lparr>info_id = i, info_title = t, info_description = d, info_enc = enc,
                       info_date = parsed\<lparr>tzinfo := Some UTC\<rparr>\<rparr>)"
proof (intro conjI allI impI)
  fix info assume "extract_info li = Inr info"
  with assms show "string_of p = Some (info_description info)"
    by (auto simp: extract_info_Inr_iff)
next
  assume "string_of p = None"
  with assms have "\<forall>info. extract_info li \<noteq> Inr info"
    by (auto simp: extract_info_Inr_iff)
  then show "\<exists>err. extract_info li = Inl err" by (rule not_Inr_fails)
next
  fix nm at assume "p = Tag nm at []"
  then show "string_of p = None" by simp
next
  fix item h3 span btn i t published parsed enc d
  assume "find_bs li ''a'' ''ep-item'' = Some item \<and> get item ''href'' = Some (Str i)
            \<and> find_bs li ''h3'' ''ep-row-title'' = Some h3 \<and> string_of h3 = Some t
            \<and> find_bs li ''span'' ''ep-published'' = Some span
            \<and> string_of span = Some published \<and> strptime (strip published) = Inr parsed
            \<and> find_bs li ''a'' ''play-btn'' = Some btn \<and> get btn ''data-mp3'' = Some (Str enc)
            \<and> string_of p = Some d"
  with assms show "extract_info li =
                  Inr \<lparr>info_id = i, info_title = t, info_description = d, info_enc = enc,
                       info_date = parsed\<lparr>tzinfo := Some UTC\<rparr>\<rparr>"
    by (simp add: extract_info_Inr_iff)
qed

lemma find_bs_desc_episode_row:
  "find_bs (episode_row h t cs date mp3) ''p'' ''ep-row-desc''
     = Some (Tag ''p'' [''class'' \<mapsto> Multi [''ep-row-desc'']] cs)"
  by (simp add: find_bs_def episode_row_def)

lemma extract_info_empty_text:
  "extract_info (episode_row ''/ep/6'' ''Essay six'' [NavigableString ''''] ''03.15.2024'' ''six.mp3'')
    = Inr \<lparr>info_id = ''/ep/6'', info_title = ''Essay six'', info_description = '''',
          info_enc = ''six.mp3'',
          info_date = \<lparr>year = 2024, month = 3, day = 15, hour = 0, minute = 0, second = 0,
                       microsecond = 0, tzinfo = Some UTC\<rparr>\<rparr>"
  by code_simp

text \<open>A paragraph holding an empty text node, and a paragraph without children.\<close>

theorem C8_description_witness:
  "find_bs (episode_row ''/ep/6'' ''Essay six'' [NavigableString ''''] ''03.15.2024'' ''six.mp3'')
       ''p'' ''ep-row-desc''
     = Some (Tag ''p'' [''class'' \<mapsto> Multi [''ep-row-desc'']] [NavigableString ''''])
   \<and> (\<exists>info. extract_info (episode_row ''/ep/6'' ''Essay six'' [NavigableString '''']
                               ''03.15.2024'' ''six.mp3'') = Inr info
          \<and> info_description info = '''')
   \<and> find_bs (episode_row ''/ep/5'' ''Essay five'' [] ''03.15.2024'' ''five.mp3'')
       ''p'' ''ep-row-desc''
     = Some (Tag ''p'' [''class'' \<mapsto> Multi [''ep-row-desc'']] [])
   \<and> (\<exists>err. extract_info (episode_row ''/ep/5'' ''Essay five'' [] ''03.15.2024'' ''five.mp3'')
          = Inl err)"
proof -
  note six = C8_description [OF find_bs_desc_episode_row
      [of "''/ep/6''" "''Essay six''" "[NavigableString '''']" "''03.15.2024''" "''six.mp3''"]]
  note five = C8_description [OF find_bs_desc_episode_row
      [of "''/ep/5''" "''Essay five''" "[]" "''03.15.2024''" "''five.mp3''"]]
  from six have "\<forall>info. extract_info (episode_row ''/ep/6'' ''Essay six'' [NavigableString '''']
                               ''03.15.2024'' ''six.mp3'') = Inr info
          \<longrightarrow> info_description info = ''''"
    by simp
  with extract_info_empty_text
  have "\<exists>info. extract_info (episode_row ''/ep/6'' ''Essay six'' [NavigableString '''']
                               ''03.15.2024'' ''six.mp3'') = Inr info
          \<and> info_description info = ''''"
    by blast
  moreover from five
  have "\<exists>err. extract_info (episode_row ''/ep/5'' ''Essay five'' [] ''03.15.2024'' ''five.mp3'')
          = Inl err"
    by simp
  ultimately show ?thesis by (simp add: find_bs_desc_episode_row)
qed

section \<open>Tag names in the searches\<close>

lemma find_bs_no_class:
  assumes "\<forall>m\<in>set (descendants li). has_name nm m \<longrightarrow> \<not> matches_attr (get m ''class'') cls"
  shows "find_bs li nm cls = None"
  using assms by (simp add: find_bs_None_iff search_tag_iff)

text \<open>
  Claim C10: a search matches a node only if it is a tag of the wanted name, whatever its
  class. A row in which no \<open>span\<close> has the class \<open>ep-published\<close> is filtered out, and
  extraction from it would fail; a row in which no \<open>a\<close> has the class \<open>ep-item\<close> or
  \<open>play-btn\<close>, no \<open>h3\<close> the class \<open>ep-row-title\<close>, or no \<open>p\<close> the class
  \<open>ep-row-desc\<close> fails extraction, also when tags of other names have these classes.
\<close>

theorem C10_tag_name_and_class:
  "(search_tag nm cls t \<longleftrightarrow> has_name nm t \<and> matches_attr (get t ''class'') cls)
   \<and> ((\<forall>m\<in>set (descendants li).
          has_name ''span'' m \<longrightarrow> \<not> matches_attr (get m ''class'') ''ep-published'')
        \<longrightarrow> li \<notin> set (gen_entries parse resp) \<and> (\<exists>err. extract_info li = Inl err))
   \<and> ((\<forall>m\<in>set (descendants li).
          has_name ''a'' m \<longrightarrow> \<not> matches_attr (get m ''class'') ''ep-item'')
        \<longrightarrow> extract_info li = Inl AttributeError)
   \<and> ((\<forall>m\<in>set (descendants li).
          has_name ''h3'' m \<longrightarrow> \<not> matches_attr (get m ''class'') ''ep-row-title'')
        \<longrightarrow> (\<exists>err. extract_info li = Inl err))
   \<and> ((\<forall>m\<in>set (descendants li).
          has_name ''p'' m \<longrightarrow> \<not> matches_attr (get m ''class'') ''ep-row-desc'')
        \<longrightarrow> (\<exists>err. extract_info li = Inl err))
   \<and> ((\<forall>m\<in>set (descendants li).
          has_name ''a'' m \<longrightarrow> \<not> matches_attr (get m ''class'') ''play-btn'')
        \<longrightarrow> (\<exists>err. extract_info li = Inl err))"
proof (intro conjI impI)
  show "search_tag nm cls t \<longleftrightarrow> has_name nm t \<and> matches_attr (get t ''class'') cls"
    by (rule search_tag_iff)
next
  assume "\<forall>m\<in>set (descendants li).
          has_name ''span'' m \<longrightarrow> \<not> matches_attr (get m ''class'') ''ep-published''"
  then have none: "find_bs li ''span'' ''ep-published'' = None" by (rule find_bs_no_class)
  then show "li \<notin> set (gen_entries parse resp)"
    by (simp add: gen_entries_def Let_def)
  from none have "\<forall>info. extract_info li \<noteq> Inr info"
    by (simp add: extract_info_Inr_iff)
  then show "\<exists>err. extract_info li = Inl err" by (rule not_Inr_fails)
next
  assume "\<forall>m\<in>set (descendants li).
          has_name ''a'' m \<longrightarrow> \<not> matches_attr (get m ''class'') ''ep-item''"
  then have "find_bs li ''a'' ''ep-item'' = None" by (rule find_bs_no_class)
  then show "extract_info li = Inl AttributeError"
    by (simp add: extract_info_def)
next
  assume "\<forall>m\<in>set (descendants li).
          has_name ''h3'' m \<longrightarrow> \<not> matches_attr (get m ''class'') ''ep-row-title''"
  then have "find_bs li ''h3'' ''ep-row-title'' = None" by (rule find_bs_no_class)
  then have "\<forall>info. extract_info li \<noteq> Inr info"
    by (simp add: extract_info_Inr_iff)
  then show "\<exists>err. extract_info li = Inl err" by (rule not_Inr_fails)
next
  assume "\<forall>m\<in>set (descendants li).
          has_name ''p'' m \<longrightarrow> \<not> matches_attr (get m ''class'') ''ep-row-desc''"
  then have "find_bs li ''p'' ''ep-row-desc'' = None" by (rule find_bs_no_class)
  then have "\<forall>info. extract_info li \<noteq> Inr info"
    by (simp add: extract_info_Inr_iff)
  then show "\<exists>err. extract_info li = Inl err" by (rule not_Inr_fails)
next
  assume "\<forall>m\<in>set (descendants li).
          has_name ''a'' m \<longrightarrow> \<not> matches_attr (get m ''class'') ''play-btn''"
  then have "find_bs li ''a'' ''play-btn'' = None" by (rule find_bs_no_class)
  then have "\<forall>info. extract_info li \<noteq> Inr info"
    by (simp add: extract_info_Inr_iff)
  then show "\<exists>err. extract_info li = Inl err" by (rule not_Inr_fails)
qed

text \<open>
  A row whose marker is a \<open>div\<close> of class \<open>ep-published\<close> is not selected; a row whose
  title is a \<open>h2\<close> of class \<open>ep-row-title\<close> fails extraction.
\<close>

theorem C10_tag_name_and_class_witness:
  "(\<exists>m. m \<in> set (descendants row_div_marker) \<and> matches_attr (get m ''class'') ''ep-published'')
   \<and> find_bs row_div_marker ''span'' ''ep-published'' = None
   \<and> row_div_marker \<notin> set (gen_entries (\<lambda>txt. soup_of [row_A, row_div_marker])
                                        (example_resp 200 ''OK''))
   \<and> (\<exists>m. m \<in> set (descendants row_h2_title) \<and> matches_attr (get m ''class'') ''ep-row-title'')
   \<and> find_bs row_h2_title ''h3'' ''ep-row-title'' = None
   \<and> (\<exists>err. extract_info row_h2_title = Inl err)"
proof -
  have "\<exists>m\<in>set (descendants row_div_marker). matches_attr (get m ''class'') ''ep-published''"
    by (simp add: row_div_marker_def)
  then have div_class: "\<exists>m. m \<in> set (descendants row_div_marker)
                      \<and> matches_attr (get m ''class'') ''ep-published''"
    by blast
  have no_span: "\<forall>m\<in>set (descendants row_div_marker).
          has_name ''span'' m \<longrightarrow> \<not> matches_attr (get m ''class'') ''ep-published''"
    by (simp add: row_div_marker_def)
  have "\<exists>m\<in>set (descendants row_h2_title). matches_attr (get m ''class'') ''ep-row-title''"
    by (simp add: row_h2_title_def)
  then have h2_class: "\<exists>m. m \<in> set (descendants row_h2_title)
                      \<and> matches_attr (get m ''class'') ''ep-row-title''"
    by blast
  have no_h3: "\<forall>m\<in>set (descendants row_h2_title).
          has_name ''h3'' m \<longrightarrow> \<not> matches_attr (get m ''class'') ''ep-row-title''"
    by (simp add: row_h2_title_def)
  from no_span
    C10_tag_name_and_class [of _ _ _ row_div_marker "\<lambda>txt. soup_of [row_A, row_div_marker]"
      "example_resp 200 ''OK''"]
  have "row_div_marker \<notin> set (gen_entries (\<lambda>txt. soup_of [row_A, row_div_marker])
                                        (example_resp 200 ''OK''))"
    by blast
  moreover from no_h3 C10_tag_name_and_class [of _ _ _ row_h2_title]
  have "\<exists>err. extract_info row_h2_title = Inl err"
    by blast
  ultimately show ?thesis
    using div_class h2_class find_bs_no_class [OF no_span] find_bs_no_class [OF no_h3]
    by blast
qed

section \<open>The date format\<close>

lemma find_mono:
  assumes "find P xs = Some x" and "Q x" and "\<And>y. Q y \<Longrightarrow> P y"
  shows "find Q xs = Some x"
  using assms(1)
proof (induction xs)
  case Nil
  then show ?case by simp
next
  case (Cons a xs)
  show ?case
  proof (cases "P a")
    case True
    with Cons.prems have "a = x" by simp
    with assms(2) show ?thesis by simp
  next
    case False
    with Cons.prems have "find P xs = Some x" by simp
    then have "find Q xs = Some x" by (rule Cons.IH)
    moreover from False assms(3) have "\<not> Q a" by blast
    ultimately show ?thesis by simp
  qed
qed

lemma digit_prefix_split:
  assumes "digit_prefix t = Some (v, r)"
  shows "\<exists>g. t = g @ r \<and> decimal_digit g"
proof -
  let ?P = "\<lambda>u. \<lambda>(lead, lo, hi).
              take (length lead) u = lead
              \<and> (case drop (length lead) u of [] \<Rightarrow> False | b # r \<Rightarrow> in_range lo hi b)"
  from assms obtain lead lo hi b where
    found: "find (?P t) decimal_runs = Some (lead, lo, hi)" and
    rest: "drop (length lead) t = b # r"
    by (auto simp: digit_prefix_def split: option.splits prod.splits list.splits)
  from found have "?P t (lead, lo, hi)"
    by (auto simp: find_Some_iff)
  with rest have lead: "take (length lead) t = lead" and b: "in_range lo hi b"
    by simp_all
  define g where "g = lead @ [b]"
  have "t = take (length lead) t @ drop (length lead) t" by simp
  with lead rest have t: "t = g @ r" by (simp add: g_def)
  have here: "?P g (lead, lo, hi)"
    using b by (simp add: g_def)
  have below: "?P t y" if "?P g y" for y
  proof -
    obtain l' lo' hi' where y: "y = (l', lo', hi')" by (cases y) auto
    from that y obtain b' r' where
      l': "take (length l') g = l'" and d': "drop (length l') g = b' # r'" and
      in': "in_range lo' hi' b'"
      by (auto split: list.splits)
    from d' have "drop (length l') g \<noteq> []" by simp
    then have short: "length l' < length g" by simp
    from short l' have "take (length l') (g @ r) = l'" by simp
    moreover from short d' have "drop (length l') (g @ r) = b' # r' @ r" by simp
    ultimately show ?thesis using in' y t by simp
  qed
  from find_mono [of "?P t" decimal_runs "(lead, lo, hi)" "?P g", OF found here below]
  have "find (?P g) decimal_runs = Some (lead, lo, hi)" .
  then have "decimal_digit g"
    by (simp add: decimal_digit_def digit_prefix_def g_def)
  with t show ?thesis by blast
qed

lemma rx_match_suffix: "r \<in> set (rx_match rx s) \<Longrightarrow> \<exists>pre. s = pre @ r"
proof (induction rx arbitrary: s r)
  case (Seq p q)
  then obtain r1 where "r1 \<in> set (rx_match p s)" and "r \<in> set (rx_match q r1)"
    by auto
  with Seq.IH obtain pre1 pre2 where "s = pre1 @ r1" and "r1 = pre2 @ r"
    by blast
  then have "s = (pre1 @ pre2) @ r" by simp
  then show ?case by blast
next
  case Dig
  then have "\<exists>v. digit_prefix s = Some (v, r)"
    by (cases "digit_prefix s") auto
  then show ?case by (blast dest: digit_prefix_split)
qed (auto split: list.splits if_splits)

lemma group_iff:
  "(g, r) \<in> set (group rx s) \<longleftrightarrow> r \<in> set (rx_match rx s) \<and> s = g @ r"
proof
  assume "(g, r) \<in> set (group rx s)"
  then have r: "r \<in> set (rx_match rx s)" and g: "g = take (length s - length r) s"
    by (auto simp: group_def)
  from rx_match_suffix [OF r] obtain pre where "s = pre @ r" by blast
  with g r show "r \<in> set (rx_match rx s) \<and> s = g @ r" by simp
next
  assume "r \<in> set (rx_match rx s) \<and> s = g @ r"
  then show "(g, r) \<in> set (group rx s)"
    by (auto simp: group_def image_iff intro!: bexI [of _ r])
qed

lemma ascii_decimal_digit:
  assumes "in_range CHR ''0'' CHR ''9'' c"
  shows "decimal_digit [c]"
  using assms by (simp add: decimal_digit_def digit_prefix_def decimal_runs_def)

lemma in_range_digit:
  "in_range CHR ''0'' CHR ''1'' c \<Longrightarrow> ascii_digit c"
  "in_range CHR ''0'' CHR ''2'' c \<Longrightarrow> ascii_digit c"
  "in_range CHR ''1'' CHR ''2'' c \<Longrightarrow> ascii_digit c"
  "in_range CHR ''1'' CHR ''9'' c \<Longrightarrow> ascii_digit c"
  by (simp_all add: ascii_digit_def in_range_def)

lemma digit_literals: "ascii_digit CHR ''0''" "ascii_digit CHR ''1''" "ascii_digit CHR ''3''"
  by (simp_all add: ascii_digit_def in_range_def)

lemma ascii_digit_decimal: "ascii_digit c \<Longrightarrow> decimal_digit [c]"
  by (simp add: ascii_digit_def ascii_decimal_digit)

lemma dig_match:
  assumes "r \<in> set (rx_match Dig s)"
  shows "\<exists>g. s = g @ r \<and> decimal_digit g"
proof -
  from assms have "\<exists>v. digit_prefix s = Some (v, r)"
    by (cases "digit_prefix s") auto
  then show ?thesis by (blast dest: digit_prefix_split)
qed

lemma re_m_match:
  assumes "r \<in> set (rx_match re_m s)"
  shows "(\<exists>c. s = [c] @ r \<and> ascii_digit c)
         \<or> (\<exists>c c'. s = [c, c'] @ r \<and> ascii_digit c \<and> ascii_digit c')"
  using assms
  apply (simp add: re_m_def)
  apply (elim disjE exE conjE)
    apply (clarsimp simp: digit_literals in_range_digit)
   apply (clarsimp simp: digit_literals in_range_digit)
  apply (clarsimp simp: digit_literals in_range_digit)
  done

lemma re_d_match:
  assumes "r \<in> set (rx_match re_d s)"
  shows "(\<exists>a. s = a @ r \<and> decimal_digit a)
         \<or> (\<exists>a b. s = (a @ b) @ r \<and> decimal_digit a \<and> decimal_digit b)
         \<or> (\<exists>c. s = [CHR '' '', c] @ r \<and> ascii_digit c)"
proof -
  from assms have
    "(\<exists>c. s = [CHR ''3'', c] @ r \<and> in_range CHR ''0'' CHR ''1'' c)
     \<or> (\<exists>c t. s = c # t \<and> in_range CHR ''1'' CHR ''2'' c \<and> r \<in> set (rx_match Dig t))
     \<or> (\<exists>c. s = [CHR ''0'', c] @ r \<and> in_range CHR ''1'' CHR ''9'' c)
     \<or> (\<exists>c. s = [c] @ r \<and> in_range CHR ''1'' CHR ''9'' c)
     \<or> (\<exists>c. s = [CHR '' '', c] @ r \<and> in_range CHR ''1'' CHR ''9'' c)"
    apply (simp add: re_d_def del: rx_match.simps(3))
    apply (elim disjE exE conjE)
        apply (clarsimp simp del: rx_match.simps(3))
       apply (clarsimp simp del: rx_match.simps(3))
      apply (clarsimp simp del: rx_match.simps(3))
     apply (clarsimp simp del: rx_match.simps(3))
    apply (clarsimp simp del: rx_match.simps(3))
    done
  then consider
      (thirty) c where "s = [CHR ''3'', c] @ r" "in_range CHR ''0'' CHR ''1'' c"
    | (teens) c t where "s = c # t" "in_range CHR ''1'' CHR ''2'' c" "r \<in> set (rx_match Dig t)"
    | (padded) c where "s = [CHR ''0'', c] @ r" "in_range CHR ''1'' CHR ''9'' c"
    | (single) c where "s = [c] @ r" "in_range CHR ''1'' CHR ''9'' c"
    | (spaced) c where "s = [CHR '' '', c] @ r" "in_range CHR ''1'' CHR ''9'' c"
    by blast
  then show ?thesis
  proof cases
    case thirty
    then have "s = ([CHR ''3''] @ [c]) @ r" "decimal_digit [CHR ''3'']" "decimal_digit [c]"
      by (simp_all add: ascii_digit_decimal digit_literals in_range_digit)
    then show ?thesis by blast
  next
    case teens
    from dig_match [OF teens(3)] obtain g where "t = g @ r" "decimal_digit g" by blast
    with teens have "s = ([c] @ g) @ r" "decimal_digit [c]" "decimal_digit g"
      by (simp_all add: ascii_digit_decimal in_range_digit)
    then show ?thesis by blast
  next
    case padded
    then have "s = ([CHR ''0''] @ [c]) @ r" "decimal_digit [CHR ''0'']" "decimal_digit [c]"
      by (simp_all add: ascii_digit_decimal digit_literals in_range_digit)
    then show ?thesis by blast
  next
    case single
    then have "s = [c] @ r" "decimal_digit [c]"
      by (simp_all add: ascii_digit_decimal in_range_digit)
    then show ?thesis by blast
  next
    case spaced
    then have "s = [CHR '' '', c] @ r" "ascii_digit c"
      by (simp_all add: in_range_digit)
    then show ?thesis by blast
  qed
qed

lemma re_Y_match:
  assumes "r \<in> set (rx_match re_Y s)"
  shows "\<exists>a b c d. s = (a @ b @ c @ d) @ r
           \<and> decimal_digit a \<and> decimal_digit b \<and> decimal_digit c \<and> decimal_digit d"
proof -
  from assms have "\<exists>r1 r2 r3. r1 \<in> set (rx_match Dig s) \<and> r2 \<in> set (rx_match Dig r1)
      \<and> r3 \<in> set (rx_match Dig r2) \<and> r \<in> set (rx_match Dig r3)"
    by (auto simp add: re_Y_def simp del: rx_match.simps(3))
  then obtain r1 r2 r3 where
    m1: "r1 \<in> set (rx_match Dig s)" and m2: "r2 \<in> set (rx_match Dig r1)" and
    m3: "r3 \<in> set (rx_match Dig r2)" and m4: "r \<in> set (rx_match Dig r3)"
    by blast
  from dig_match [OF m1] obtain a where a: "s = a @ r1" "decimal_digit a" by blast
  from dig_match [OF m2] obtain b where b: "r1 = b @ r2" "decimal_digit b" by blast
  from dig_match [OF m3] obtain c where c: "r2 = c @ r3" "decimal_digit c" by blast
  from dig_match [OF m4] obtain d where d: "r3 = d @ r" "decimal_digit d" by blast
  from a(1) b(1) c(1) d(1) have "s = (a @ b @ c @ d) @ r" by simp
  with a(2) b(2) c(2) d(2) show ?thesis by blast
qed

lemma re_m_shape:
  assumes "(g, r) \<in> set (group re_m s)"
  shows "(length g = 1 \<or> length g = 2) \<and> list_all ascii_digit g"
proof -
  from assms group_iff [of g r re_m s]
  have r: "r \<in> set (rx_match re_m s)" and s: "s = g @ r"
    by blast+
  from re_m_match [OF r] s
  have "(\<exists>c. g = [c] \<and> ascii_digit c) \<or> (\<exists>c c'. g = [c, c'] \<and> ascii_digit c \<and> ascii_digit c')"
    by (simp only: append_same_eq)
  then show ?thesis by auto
qed

lemma re_d_shape:
  assumes "(g, r) \<in> set (group re_d s)"
  shows "decimal_digit g \<or> (\<exists>a b. g = a @ b \<and> decimal_digit a \<and> decimal_digit b)
         \<or> (\<exists>c. g = [CHR '' '', c] \<and> ascii_digit c)"
proof -
  from assms group_iff [of g r re_d s]
  have r: "r \<in> set (rx_match re_d s)" and s: "s = g @ r"
    by blast+
  from re_d_match [OF r] s
  have "(\<exists>a. g = a \<and> decimal_digit a)
         \<or> (\<exists>a b. g = a @ b \<and> decimal_digit a \<and> decimal_digit b)
         \<or> (\<exists>c. g = [CHR '' '', c] \<and> ascii_digit c)"
    by (simp only: append_same_eq)
  then show ?thesis by blast
qed

lemma re_Y_shape:
  assumes "(g, r) \<in> set (group re_Y s)"
  shows "\<exists>a b c d. g = a @ b @ c @ d
           \<and> decimal_digit a \<and> decimal_digit b \<and> decimal_digit c \<and> decimal_digit d"
proof -
  from assms group_iff [of g r re_Y s]
  have r: "r \<in> set (rx_match re_Y s)" and s: "s = g @ r"
    by blast+
  from re_Y_match [OF r] s
  show ?thesis
    by (simp only: append_same_eq)
qed

lemma first_Some_mem: "(case xs of [] \<Rightarrow> None | x # _ \<Rightarrow> Some x) = Some y \<Longrightarrow> y \<in> set xs"
  by (cases xs) auto

lemma format_regex_match_Some:
  assumes "format_regex_match s = Some (m, d, y, rest)"
  shows "\<exists>r2 r4. (m, CHR ''.'' # r2) \<in> set (group re_m s)
           \<and> (d, CHR ''.'' # r4) \<in> set (group re_d r2)
           \<and> (y, rest) \<in> set (group re_Y r4)"
  using assms
  apply (unfold format_regex_match_def)
  apply (drule first_Some_mem)
  apply (auto simp: case_prod_beta)
  apply blast
  done

lemma strptime_Inr:
  assumes "strptime s = Inr dt"
  shows "\<exists>m d y. s = m @ ''.'' @ d @ ''.'' @ y
           \<and> (length m = 1 \<or> length m = 2) \<and> list_all ascii_digit m
           \<and> (decimal_digit d \<or> (\<exists>a b. d = a @ b \<and> decimal_digit a \<and> decimal_digit b)
                \<or> (\<exists>c. d = [CHR '' '', c] \<and> ascii_digit c))
           \<and> (\<exists>a b c e. y = a @ b @ c @ e
                 \<and> decimal_digit a \<and> decimal_digit b \<and> decimal_digit c \<and> decimal_digit e)
           \<and> check_date_fields (int_of y) (int_of m) (int_of d)
           \<and> dt = \<lparr>year = int_of y, month = int_of m, day = int_of d, hour = 0, minute = 0,
                    second = 0, microsecond = 0, tzinfo = None\<rparr>"
proof -
  from assms obtain m d y where
    found: "format_regex_match s = Some (m, d, y, [])" and
    valid: "check_date_fields (int_of y) (int_of m) (int_of d)" and
    dt: "dt = \<lparr>year = int_of y, month = int_of m, day = int_of d, hour = 0, minute = 0,
                    second = 0, microsecond = 0, tzinfo = None\<rparr>"
    by (auto simp: strptime_def split: option.splits prod.splits if_splits)
  from format_regex_match_Some [OF found] obtain r2 r4 where
    gm: "(m, CHR ''.'' # r2) \<in> set (group re_m s)" and
    gd: "(d, CHR ''.'' # r4) \<in> set (group re_d r2)" and
    gy: "(y, []) \<in> set (group re_Y r4)"
    by blast
  from gm gd gy have s: "s = m @ ''.'' @ d @ ''.'' @ y"
    by (simp add: group_iff)
  note shapes = re_m_shape [OF gm] re_d_shape [OF gd] re_Y_shape [OF gy]
  show ?thesis
    by (rule exI [of _ m], rule exI [of _ d], rule exI [of _ y])
       (use s shapes valid dt in blast)
qed

lemma extract_info_episode_row:
  "extract_info (episode_row h t [NavigableString d] date mp3) =
     (case strptime (strip date) of
        Inl err \<Rightarrow> Inl err
      | Inr parsed \<Rightarrow>
          Inr \<lparr>info_id = h, info_title = t, info_description = d, info_enc = mp3,
               info_date = parsed\<lparr>tzinfo := Some UTC\<rparr>\<rparr>)"
  by (simp add: extract_info_def find_bs_def episode_row_def new_Info_def Let_def
      split: sum.splits)

lemma extract_info_date_error:
  assumes "find_bs li ''a'' ''ep-item'' = Some item"
    and "find_bs li ''h3'' ''ep-row-title'' = Some h3"
    and "find_bs li ''p'' ''ep-row-desc'' = Some p"
    and "find_bs li ''span'' ''ep-published'' = Some span"
    and "string_of span = Some published"
    and "strptime (strip published) = Inl err"
  shows "extract_info li = Inl ValueError"
proof -
  from assms(6) have "err = ValueError" by (rule strptime_error)
  with assms show ?thesis by (simp add: extract_info_def Let_def)
qed

lemma strptime_padded:
  "strptime (strip ''03.15.2024'') =
     Inr \<lparr>year = 2024, month = 3, day = 15, hour = 0, minute = 0, second = 0,
          microsecond = 0, tzinfo = None\<rparr>"
  by code_simp

lemma strptime_unpadded:
  "strptime (strip ''3.15.2024'') =
     Inr \<lparr>year = 2024, month = 3, day = 15, hour = 0, minute = 0, second = 0,
          microsecond = 0, tzinfo = None\<rparr>"
  by code_simp

lemma strptime_iso: "strptime (strip ''2024-03-15'') = Inl ValueError"
  by code_simp

lemma arabic_indic_date_bytes:
  "arabic_indic_date =
     [CHR 0xE2, CHR 0x80, CHR 0x83] @ ''03.1'' @ [CHR 0xD9, CHR 0xA5] @ ''.''
     @ [CHR 0xD9, CHR 0xA2, CHR 0xD9, CHR 0xA0, CHR 0xD9, CHR 0xA2, CHR 0xD9, CHR 0xA4]
     @ [CHR 0xE3, CHR 0x80, CHR 0x80]"
  by (simp add: arabic_indic_date_def utf8_encode_def char_of_eq_char)

lemma strptime_arabic_indic_bytes:
  "strptime (strip ([CHR 0xE2, CHR 0x80, CHR 0x83] @ ''03.1'' @ [CHR 0xD9, CHR 0xA5] @ ''.''
     @ [CHR 0xD9, CHR 0xA2, CHR 0xD9, CHR 0xA0, CHR 0xD9, CHR 0xA2, CHR 0xD9, CHR 0xA4]
     @ [CHR 0xE3, CHR 0x80, CHR 0x80])) =
     Inr \<lparr>year = 2024, month = 3, day = 15, hour = 0, minute = 0, second = 0,
          microsecond = 0, tzinfo = None\<rparr>"
  by code_simp

lemma strptime_arabic_indic:
  "strptime (strip arabic_indic_date) =
     Inr \<lparr>year = 2024, month = 3, day = 15, hour = 0, minute = 0, second = 0,
          microsecond = 0, tzinfo = None\<rparr>"
  by (simp only: arabic_indic_date_bytes strptime_arabic_indic_bytes)

text \<open>
  Claim C2 as stated makes the format strict, so that \<open>3.15.2024\<close> fails. The
  expression of \<open>%m\<close> also takes a month of one digit: the row is extracted, with the
  date 15 March 2024.
\<close>

theorem C2_counterexample:
  "extract_info (episode_row ''/ep/7'' ''Essay seven'' [NavigableString ''Seventh essay'']
                   ''3.15.2024'' ''https://cdn.example/7.mp3'')
     = Inr \<lparr>info_id = ''/ep/7'', info_title = ''Essay seven'',
            info_description = ''Seventh essay'', info_enc = ''https://cdn.example/7.mp3'',
            info_date = \<lparr>year = 2024, month = 3, day = 15, hour = 0, minute = 0, second = 0,
                         microsecond = 0, tzinfo = Some UTC\<rparr>\<rparr>"
  by code_simp

text \<open>
  Claim C2, amended: \<open>03.15.2024\<close> parses to midnight of 15 March 2024, UTC, and so do
  \<open>3.15.2024\<close> and the same date written with decimal digits that are not ASCII, between
  white space that is not ASCII; \<open>2024-03-15\<close> fails with \<open>ValueError\<close>. The date of every
  record comes from a marker text that, stripped of white space, is a month of one or two
  ASCII digits, a dot, a day of one or two decimal digits (or a space and an ASCII digit), a
  dot and a year of four decimal digits, a decimal digit being any code point of category
  Nd, and that names a date of the calendar. A marker text that does not parse makes the
  extraction fail, and the exception is \<open>ValueError\<close> when the item anchor, the title heading
  and the description paragraph are found.
\<close>

theorem C2_date_format:
  "extract_info (episode_row h t [NavigableString d] ''03.15.2024'' mp3)
     = Inr \<lparr>info_id = h, info_title = t, info_description = d, info_enc = mp3,
            info_date = \<lparr>year = 2024, month = 3, day = 15, hour = 0, minute = 0, second = 0,
                         microsecond = 0, tzinfo = Some UTC\<rparr>\<rparr>
   \<and> extract_info (episode_row h t [NavigableString d] ''3.15.2024'' mp3)
     = Inr \<lparr>info_id = h, info_title = t, info_description = d, info_enc = mp3,
            info_date = \<lparr>year = 2024, month = 3, day = 15, hour = 0, minute = 0, second = 0,
                         microsecond = 0, tzinfo = Some UTC\<rparr>\<rparr>
   \<and> extract_info (episode_row h t [NavigableString d] arabic_indic_date mp3)
     = Inr \<lparr>info_id = h, info_title = t, info_description = d, info_enc = mp3,
            info_date = \<lparr>year = 2024, month = 3, day = 15, hour = 0, minute = 0, second = 0,
                         microsecond = 0, tzinfo = Some UTC\<rparr>\<rparr>
   \<and> extract_info (episode_row h t [NavigableString d] ''2024-03-15'' mp3) = Inl ValueError
   \<and> (\<forall>info. extract_info li = Inr info \<longrightarrow>
        (\<exists>span published m dd y.
            find_bs li ''span'' ''ep-published'' = Some span
          \<and> string_of span = Some published
          \<and> strip published = m @ ''.'' @ dd @ ''.'' @ y
          \<and> (length m = 1 \<or> length m = 2) \<and> list_all ascii_digit m
          \<and> (decimal_digit dd \<or> (\<exists>a b. dd = a @ b \<and> decimal_digit a \<and> decimal_digit b)
               \<or> (\<exists>c. dd = [CHR '' '', c] \<and> ascii_digit c))
          \<and> (\<exists>a b c e. y = a @ b @ c @ e
                \<and> decimal_digit a \<and> decimal_digit b \<and> decimal_digit c \<and> decimal_digit e)
          \<and> check_date_fields (int_of y) (int_of m) (int_of dd)
          \<and> info_date info =
              \<lparr>year = int_of y, month = int_of m, day = int_of dd, hour = 0, minute = 0,
               second = 0, microsecond = 0, tzinfo = Some UTC\<rparr>))
   \<and> (\<forall>span published err.
          find_bs li ''span'' ''ep-published'' = Some span \<and> string_of span = Some published
          \<and> strptime (strip published) = Inl err
        \<longrightarrow> err = ValueError \<and> (\<exists>err'. extract_info li = Inl err')
            \<and> (find_bs li ''a'' ''ep-item'' \<noteq> None \<and> find_bs li ''h3'' ''ep-row-title'' \<noteq> None
                 \<and> find_bs li ''p'' ''ep-row-desc'' \<noteq> None
                \<longrightarrow> extract_info li = Inl ValueError))"
proof (intro conjI allI impI)
  show "extract_info (episode_row h t [NavigableString d] ''03.15.2024'' mp3)
     = Inr \<lparr>info_id = h, info_title = t, info_description = d, info_enc = mp3,
            info_date = \<lparr>year = 2024, month = 3, day = 15, hour = 0, minute = 0, second = 0,
                         microsecond = 0, tzinfo = Some UTC\<rparr>\<rparr>"
    by (simp only: extract_info_episode_row strptime_padded) simp
next
  show "extract_info (episode_row h t [NavigableString d] ''3.15.2024'' mp3)
     = Inr \<lparr>info_id = h, info_title = t, info_description = d, info_enc = mp3,
            info_date = \<lparr>year = 2024, month = 3, day = 15, hour = 0, minute = 0, second = 0,
                         microsecond = 0, tzinfo = Some UTC\<rparr>\<rparr>"
    by (simp only: extract_info_episode_row strptime_unpadded) simp
next
  show "extract_info (episode_row h t [NavigableString d] arabic_indic_date mp3)
     = Inr \<lparr>info_id = h, info_title = t, info_description = d, info_enc = mp3,
            info_date = \<lparr>year = 2024, month = 3, day = 15, hour = 0, minute = 0, second = 0,
                         microsecond = 0, tzinfo = Some UTC\<rparr>\<rparr>"
    by (simp only: extract_info_episode_row strptime_arabic_indic) simp
next
  show "extract_info (episode_row h t [NavigableString d] ''2024-03-15'' mp3) = Inl ValueError"
    by (simp only: extract_info_episode_row strptime_iso) simp
next
  fix info assume "extract_info li = Inr info"
  then obtain span published parsed where
    span: "find_bs li ''span'' ''ep-published'' = Some span" "string_of span = Some published" and
    parsed: "strptime (strip published) = Inr parsed" and
    date: "info_date info = parsed\<lparr>tzinfo := Some UTC\<rparr>"
    by (auto simp: extract_info_Inr_iff)
  from strptime_Inr [OF parsed] obtain m dd y where
    "strip published = m @ ''.'' @ dd @ ''.'' @ y"
    "(length m = 1 \<or> length m = 2) \<and> list_all ascii_digit m"
    "decimal_digit dd \<or> (\<exists>a b. dd = a @ b \<and> decimal_digit a \<and> decimal_digit b)
       \<or> (\<exists>c. dd = [CHR '' '', c] \<and> ascii_digit c)"
    "\<exists>a b c e. y = a @ b @ c @ e
       \<and> decimal_digit a \<and> decimal_digit b \<and> decimal_digit c \<and> decimal_digit e"
    "check_date_fields (int_of y) (int_of m) (int_of dd)"
    "parsed = \<lparr>year = int_of y, month = int_of m, day = int_of dd, hour = 0, minute = 0,
                second = 0, microsecond = 0, tzinfo = None\<rparr>"
    by blast
  with span date
  show "\<exists>span published m dd y.
            find_bs li ''span'' ''ep-published'' = Some span
          \<and> string_of span = Some published
          \<and> strip published = m @ ''.'' @ dd @ ''.'' @ y
          \<and> (length m = 1 \<or> length m = 2) \<and> list_all ascii_digit m
          \<and> (decimal_digit dd \<or> (\<exists>a b. dd = a @ b \<and> decimal_digit a \<and> decimal_digit b)
               \<or> (\<exists>c. dd = [CHR '' '', c] \<and> ascii_digit c))
          \<and> (\<exists>a b c e. y = a @ b @ c @ e
                \<and> decimal_digit a \<and> decimal_digit b \<and> decimal_digit c \<and> decimal_digit e)
          \<and> check_date_fields (int_of y) (int_of m) (int_of dd)
          \<and> info_date info =
              \<lparr>year = int_of y, month = int_of m, day = int_of dd, hour = 0, minute = 0,
               second = 0, microsecond = 0, tzinfo = Some UTC\<rparr>"
    by (intro exI [of _ span] exI [of _ published] exI [of _ m] exI [of _ dd] exI [of _ y]) simp
next
  fix span published err
  assume a: "find_bs li ''span'' ''ep-published'' = Some span \<and> string_of span = Some published
          \<and> strptime (strip published) = Inl err"
  then show "err = ValueError" by (blast dest: strptime_error)
  from a have "\<forall>info. extract_info li \<noteq> Inr info"
    by (auto simp: extract_info_Inr_iff)
  then show "\<exists>err'. extract_info li = Inl err'" by (rule not_Inr_fails)
next
  fix span published err
  assume a: "find_bs li ''span'' ''ep-published'' = Some span \<and> string_of span = Some published
          \<and> strptime (strip published) = Inl err"
    and b: "find_bs li ''a'' ''ep-item'' \<noteq> None \<and> find_bs li ''h3'' ''ep-row-title'' \<noteq> None
                 \<and> find_bs li ''p'' ''ep-row-desc'' \<noteq> None"
  from b obtain item h3 p where
    "find_bs li ''a'' ''ep-item'' = Some item" "find_bs li ''h3'' ''ep-row-title'' = Some h3"
    "find_bs li ''p'' ''ep-row-desc'' = Some p"
    by auto
  with a show "extract_info li = Inl ValueError"
    by (blast intro: extract_info_date_error)
qed

text \<open>The row with the date \<open>3.15.2024\<close>: a record, from a text of the stated form.\<close>

theorem C2_date_format_witness:
  "(\<exists>info. extract_info (episode_row ''/ep/7'' ''Essay seven'' [NavigableString ''Seventh essay'']
                            ''3.15.2024'' ''https://cdn.example/7.mp3'') = Inr info)
   \<and> (\<exists>span published m dd y.
          find_bs (episode_row ''/ep/7'' ''Essay seven'' [NavigableString ''Seventh essay'']
                     ''3.15.2024'' ''https://cdn.example/7.mp3'') ''span'' ''ep-published''
            = Some span
        \<and> string_of span = Some published
        \<and> strip published = m @ ''.'' @ dd @ ''.'' @ y
        \<and> (length m = 1 \<or> length m = 2)
        \<and> (\<exists>a b c e. y = a @ b @ c @ e
              \<and> decimal_digit a \<and> decimal_digit b \<and> decimal_digit c \<and> decimal_digit e))"
proof -
  let ?row = "episode_row ''/ep/7'' ''Essay seven'' [NavigableString ''Seventh essay'']
                ''3.15.2024'' ''https://cdn.example/7.mp3''"
  note c2 = C2_date_format [of "''/ep/7''" "''Essay seven''" "''Seventh essay''"
      "''https://cdn.example/7.mp3''" ?row]
  note rec = c2 [THEN conjunct2, THEN conjunct1]
  note shape = c2 [THEN conjunct2, THEN conjunct2, THEN conjunct2, THEN conjunct2,
      THEN conjunct1, rule_format, OF rec]
  from shape obtain span published m dd y where
    f1: "find_bs ?row ''span'' ''ep-published'' = Some span" and
    f2: "string_of span = Some published" and
    f3: "strip published = m @ ''.'' @ dd @ ''.'' @ y" and
    f4: "length m = 1 \<or> length m = 2" and
    f5: "\<exists>a b c e. y = a @ b @ c @ e
       \<and> decimal_digit a \<and> decimal_digit b \<and> decimal_digit c \<and> decimal_digit e"
    by blast
  have "\<exists>span published m dd y.
          find_bs ?row ''span'' ''ep-published'' = Some span
        \<and> string_of span = Some published
        \<and> strip published = m @ ''.'' @ dd @ ''.'' @ y
        \<and> (length m = 1 \<or> length m = 2)
        \<and> (\<exists>a b c e. y = a @ b @ c @ e
              \<and> decimal_digit a \<and> decimal_digit b \<and> decimal_digit c \<and> decimal_digit e)"
    apply (rule exI [of _ span])
    apply (rule exI [of _ published])
    apply (rule exI [of _ m])
    apply (rule exI [of _ dd])
    apply (rule exI [of _ y])
    apply (intro conjI)
        apply (rule f1)
       apply (rule f2)
      apply (rule f3)
     apply (rule f4)
    apply (rule f5)
    done
  moreover from rec have "\<exists>info. extract_info ?row = Inr info"
    by (rule exI)
  ultimately show ?thesis by (rule conjI [rotated])
qed

section \<open>Properties of the run\<close>

lemma add_feed_item_entries:
  assumes "fg_author fg = None"
  shows "fg_entries (add_feed_item now fg info) = fg_entries fg @ [spec_entry now info]"
    and "fg_author (add_feed_item now fg info) = None"
  using assms
  by (simp_all add: add_feed_item_def new_FeedEntry_def set_author_def spec_entry_def Let_def)

lemma add_items_Inr:
  assumes "add_items clock k fg lis = Inr fg'" and "fg_author fg = None"
  shows "\<exists>infos. map extract_info lis = map Inr infos
           \<and> fg_entries fg' = fg_entries fg
               @ map (\<lambda>(i, info). spec_entry (clock i) info) (enumerate k infos)"
  using assms
proof (induction lis arbitrary: k fg)
  case Nil
  then show ?case by simp
next
  case (Cons li lis)
  from Cons.prems(1) obtain info where
    info: "extract_info li = Inr info" and
    rest: "add_items clock (Suc k) (add_feed_item (clock k) fg info) lis = Inr fg'"
    by (auto split: sum.splits)
  from Cons.prems(2) have author: "fg_author (add_feed_item (clock k) fg info) = None"
    by (rule add_feed_item_entries(2))
  from Cons.IH [OF rest author] obtain infos where
    infos: "map extract_info lis = map Inr infos" and
    entries: "fg_entries fg' = fg_entries (add_feed_item (clock k) fg info)
               @ map (\<lambda>(i, info). spec_entry (clock i) info) (enumerate (Suc k) infos)"
    by blast
  from info infos have "map extract_info (li # lis) = map Inr (info # infos)" by simp
  moreover from entries Cons.prems(2)
  have "fg_entries fg' = fg_entries fg
          @ map (\<lambda>(i, info). spec_entry (clock i) info) (enumerate k (info # infos))"
    by (simp add: add_feed_item_entries(1))
  ultimately show ?case by blast
qed

lemma add_items_Inl:
  assumes "li \<in> set lis" and "extract_info li = Inl err"
  shows "\<exists>err' li'. li' \<in> set lis \<and> extract_info li' = Inl err'
           \<and> add_items clock k fg lis = Inl err'"
  using assms
proof (induction lis arbitrary: k fg)
  case Nil
  then show ?case by simp
next
  case (Cons x lis)
  show ?case
  proof (cases "extract_info x")
    case (Inl e)
    then show ?thesis by auto
  next
    case (Inr info)
    with Cons.prems have "li \<in> set lis" by auto
    from Cons.IH [OF this Cons.prems(2), of "Suc k" "add_feed_item (clock k) fg info"] Inr
    show ?thesis by auto
  qed
qed

lemma main_extract_fails:
  assumes "rq_get e PG_URL = Inr resp" and "ok resp"
    and "add_items (utcnow e) 0 create_base_feed (gen_entries (parser e) resp) = Inl err"
  shows "fst (main e w) = Raised err" and "files (snd (main e w)) = files w"
  using assms by (simp_all add: main_def get_release_pages_def logger_def Let_def)

lemma main_files:
  "files (snd (main e w)) = files w
   \<or> (\<exists>resp fg. rq_get e PG_URL = Inr resp \<and> ok resp
        \<and> add_items (utcnow e) 0 create_base_feed (gen_entries (parser e) resp) = Inr fg
        \<and> files (snd (main e w)) = snd (rss_file e fg FEED_PATH (files w)))"
  by (auto simp: main_def get_release_pages_def logger_def write_feed_def Let_def
      split: sum.splits prod.splits option.splits)

text \<open>
  Claim C4: when the extraction of one selected row fails, \<open>main\<close> ends with the
  exception of a failing row (nothing catches it), the exit status is not 0, and every file
  is as it was before the run. In any run, the files are either untouched or what
  \<open>rss_file\<close> made of them when given the feed with all rows added.
\<close>

theorem C4_extraction_failure_aborts:
  assumes "rq_get e PG_URL = Inr resp" and "ok resp"
    and "li \<in> set (gen_entries (parser e) resp)" and "extract_info li = Inl err"
  shows "(\<exists>err' li'. li' \<in> set (gen_entries (parser e) resp) \<and> extract_info li' = Inl err'
            \<and> fst (main e w) = Raised err')
       \<and> exit_status (fst (main e w)) \<noteq> 0
       \<and> files (snd (main e w)) = files w
       \<and> (\<forall>e' w'. files (snd (main e' w')) = files w'
            \<or> (\<exists>resp' fg. rq_get e' PG_URL = Inr resp' \<and> ok resp'
                 \<and> add_items (utcnow e') 0 create_base_feed (gen_entries (parser e') resp') = Inr fg
                 \<and> files (snd (main e' w')) = snd (rss_file e' fg FEED_PATH (files w'))))"
proof -
  from add_items_Inl [OF assms(3,4)] obtain err' li' where
    row: "li' \<in> set (gen_entries (parser e) resp)" "extract_info li' = Inl err'" and
    loop: "add_items (utcnow e) 0 create_base_feed (gen_entries (parser e) resp) = Inl err'"
    by blast
  from main_extract_fails [OF assms(1,2) loop]
  have raised: "fst (main e w) = Raised err'" and untouched: "files (snd (main e w)) = files w"
    by simp_all
  from raised have "exit_status (fst (main e w)) \<noteq> 0"
    by (simp add: exit_status_def)
  with row raised untouched main_files show ?thesis by blast
qed

lemma gen_entries_A_B:
  "gen_entries (\<lambda>txt. soup_of [row_A, row_B]) resp = [row_A, row_B]"
  by (simp add: gen_entries_filter soup_of_def row_A_def row_B_def episode_row_def)

lemma extract_info_row_B: "extract_info row_B = Inl AttributeError"
  by code_simp

lemma main_A_B:
  "fst (main (example_env (example_resp 200 ''OK'') (soup_of [row_A, row_B])) world1)
     = Raised AttributeError"
  by code_simp

text \<open>
  The scenario of the specification: row A is valid, row B lacks the play button, and an
  earlier feed file is on disk.
\<close>

theorem C4_extraction_failure_aborts_witness:
  "rq_get (example_env (example_resp 200 ''OK'') (soup_of [row_A, row_B])) PG_URL
     = Inr (example_resp 200 ''OK'')
   \<and> ok (example_resp 200 ''OK'')
   \<and> row_B \<in> set (gen_entries (parser (example_env (example_resp 200 ''OK'')
                                            (soup_of [row_A, row_B])))
                       (example_resp 200 ''OK''))
   \<and> extract_info row_B = Inl AttributeError
   \<and> fst (main (example_env (example_resp 200 ''OK'') (soup_of [row_A, row_B])) world1)
       = Raised AttributeError
   \<and> exit_status (fst (main (example_env (example_resp 200 ''OK'') (soup_of [row_A, row_B]))
                          world1)) \<noteq> 0
   \<and> files (snd (main (example_env (example_resp 200 ''OK'') (soup_of [row_A, row_B])) world1))
       = files world1
   \<and> files world1 FEED_PATH = Some ''<rss>old</rss>''"
proof -
  let ?resp = "example_resp 200 ''OK''"
  let ?e = "example_env ?resp (soup_of [row_A, row_B])"
  have fetched: "rq_get ?e PG_URL = Inr ?resp"
    by (simp add: example_env_def)
  have good: "ok ?resp"
    by (simp add: ok_def raise_for_status_def example_resp_def)
  have selected: "row_B \<in> set (gen_entries (parser ?e) ?resp)"
    by (simp add: example_env_def gen_entries_A_B)
  have old: "files world1 FEED_PATH = Some ''<rss>old</rss>''"
    by (simp add: world1_def)
  from C4_extraction_failure_aborts [OF fetched good selected extract_info_row_B, of world1]
  have "exit_status (fst (main ?e world1)) \<noteq> 0 \<and> files (snd (main ?e world1)) = files world1"
    by blast
  with fetched good selected extract_info_row_B main_A_B old show ?thesis
    by blast
qed

lemma create_base_feed_entries: "fg_entries create_base_feed = []"
  by (simp add: create_base_feed_def new_FeedGenerator_def Let_def)

lemma create_base_feed_author: "fg_author create_base_feed = None"
  by (simp add: create_base_feed_def new_FeedGenerator_def Let_def)

text \<open>
  Claim C6: in a run that succeeds, every selected row yields a record, and the feed handed
  to the writer has one entry for each record, the entries of the records in the order of
  the selected rows, which is document order: nothing is sorted, dropped or merged.
\<close>

theorem C6_order_preserved:
  assumes "fst (main e w) = Returned None"
  shows "\<exists>resp fg infos.
           rq_get e PG_URL = Inr resp
         \<and> map extract_info (gen_entries (parser e) resp) = map Inr infos
         \<and> fg_entries fg = map (\<lambda>(k, info). spec_entry (utcnow e k) info) (enumerate 0 infos)
         \<and> rss_file e fg FEED_PATH (files w) = (None, files (snd (main e w)))"
proof -
  from assms obtain resp where fetched: "rq_get e PG_URL = Inr resp"
    by (cases "rq_get e PG_URL") (auto simp: main_def get_release_pages_def)
  from assms fetched have good: "ok resp"
    by (cases "ok resp") (auto simp: main_def get_release_pages_def)
  from assms fetched good obtain fg where
    loop: "add_items (utcnow e) 0 create_base_feed (gen_entries (parser e) resp) = Inr fg"
    by (cases "add_items (utcnow e) 0 create_base_feed (gen_entries (parser e) resp)")
       (auto simp: main_def get_release_pages_def Let_def)
  from assms fetched good loop
  have written: "rss_file e fg FEED_PATH (files w) = (None, files (snd (main e w)))"
    by (auto simp: main_def get_release_pages_def Let_def write_feed_def logger_def
        split: prod.splits option.splits)
  from add_items_Inr [OF loop create_base_feed_author] obtain infos where
    "map extract_info (gen_entries (parser e) resp) = map Inr infos"
    "fg_entries fg = map (\<lambda>(k, info). spec_entry (utcnow e k) info) (enumerate 0 infos)"
    by (auto simp: create_base_feed_entries)
  with fetched written show ?thesis by blast
qed

lemma gen_entries_A_C_A:
  "gen_entries (\<lambda>txt. soup_of [row_A, row_header, row_C, row_A]) resp = [row_A, row_C, row_A]"
  by (simp add: gen_entries_filter soup_of_def row_A_def row_C_def row_header_def episode_row_def)

lemma extract_info_row_C:
  "extract_info row_C =
     Inr \<lparr>info_id = ''/ep/2'', info_title = ''Essay two'', info_description = ''Second essay'',
          info_enc = ''https://cdn.example/2.mp3'',
          info_date = \<lparr>year = 2022, month = 12, day = 24, hour = 0, minute = 0, second = 0,
                       microsecond = 0, tzinfo = Some UTC\<rparr>\<rparr>"
  by code_simp

lemma main_A_C_A:
  "fst (main (example_env (example_resp 200 ''OK'') (soup_of [row_A, row_header, row_C, row_A]))
          world0) = Returned None"
  by code_simp

text \<open>
  Row A, a header row, row C (of an earlier date) and row A again: three entries, with the
  identifier of row A twice and the dates out of order.
\<close>

theorem C6_order_preserved_witness:
  "fst (main (example_env (example_resp 200 ''OK'') (soup_of [row_A, row_header, row_C, row_A]))
          world0) = Returned None
   \<and> (\<exists>fg. map fe_id (fg_entries fg)
              = [Some ''https://podcast.app/ep/1'', Some ''https://podcast.app/ep/2'',
                 Some ''https://podcast.app/ep/1'']
          \<and> map (\<lambda>fe. map_option year (fe_published fe)) (fg_entries fg)
              = [Some 2023, Some 2022, Some 2023]
          \<and> rss_file (example_env (example_resp 200 ''OK'')
                         (soup_of [row_A, row_header, row_C, row_A])) fg FEED_PATH (files world0)
              = (None, files (snd (main (example_env (example_resp 200 ''OK'')
                         (soup_of [row_A, row_header, row_C, row_A])) world0))))"
proof -
  let ?resp = "example_resp 200 ''OK''"
  let ?e = "example_env ?resp (soup_of [row_A, row_header, row_C, row_A])"
  from C6_order_preserved [OF main_A_C_A] obtain resp fg infos where
    rows: "map extract_info (gen_entries (parser ?e) resp) = map Inr infos" and
    entries: "fg_entries fg = map (\<lambda>(k, info). spec_entry (utcnow ?e k) info) (enumerate 0 infos)" and
    written: "rss_file ?e fg FEED_PATH (files world0) = (None, files (snd (main ?e world0)))"
    by blast
  from rows have "map Inr infos = [extract_info row_A, extract_info row_C, extract_info row_A]"
    by (simp add: example_env_def gen_entries_A_C_A)
  then have "infos =
      [\<lparr>info_id = ''/ep/1'', info_title = ''Essay one'', info_description = ''First essay'',
        info_enc = ''https://cdn.example/1.mp3'',
        info_date = \<lparr>year = 2023, month = 1, day = 2, hour = 0, minute = 0, second = 0,
                     microsecond = 0, tzinfo = Some UTC\<rparr>\<rparr>,
       \<lparr>info_id = ''/ep/2'', info_title = ''Essay two'', info_description = ''Second essay'',
        info_enc = ''https://cdn.example/2.mp3'',
        info_date = \<lparr>year = 2022, month = 12, day = 24, hour = 0, minute = 0, second = 0,
                     microsecond = 0, tzinfo = Some UTC\<rparr>\<rparr>,
       \<lparr>info_id = ''/ep/1'', info_title = ''Essay one'', info_description = ''First essay'',
        info_enc = ''https://cdn.example/1.mp3'',
        info_date = \<lparr>year = 2023, month = 1, day = 2, hour = 0, minute = 0, second = 0,
                     microsecond = 0, tzinfo = Some UTC\<rparr>\<rparr>]"
    by (auto simp: extract_info_row_A extract_info_row_C map_eq_Cons_conv)
  with entries
  have ids: "map fe_id (fg_entries fg)
              = [Some ''https://podcast.app/ep/1'', Some ''https://podcast.app/ep/2'',
                 Some ''https://podcast.app/ep/1'']"
    and years: "map (\<lambda>fe. map_option year (fe_published fe)) (fg_entries fg)
              = [Some 2023, Some 2022, Some 2023]"
    by (simp_all add: spec_entry_def BASE_URL_def)
  show ?thesis
  proof (intro conjI exI)
    show "fst (main ?e world0) = Returned None" by (rule main_A_C_A)
    show "map fe_id (fg_entries fg)
              = [Some ''https://podcast.app/ep/1'', Some ''https://podcast.app/ep/2'',
                 Some ''https://podcast.app/ep/1'']" by (rule ids)
    show "map (\<lambda>fe. map_option year (fe_published fe)) (fg_entries fg)
              = [Some 2023, Some 2022, Some 2023]" by (rule years)
    show "rss_file ?e fg FEED_PATH (files world0) = (None, files (snd (main ?e world0)))"
      by (rule written)
  qed
qed

section \<open>The clock\<close>

lemma add_items_clock:
  assumes "add_items clock k fg lis = Inr fg1" and "fg_author fg = None"
    and "fg_author fg' = None"
  shows "\<exists>fg2. add_items clock' k' fg' lis = Inr fg2"
  using assms
proof (induction lis arbitrary: k k' fg fg' )
  case Nil
  then show ?case by simp
next
  case (Cons li lis)
  from Cons.prems(1) obtain info where
    info: "extract_info li = Inr info" and
    rest: "add_items clock (Suc k) (add_feed_item (clock k) fg info) lis = Inr fg1"
    by (auto split: sum.splits)
  from Cons.IH [OF rest add_feed_item_entries(2) [OF Cons.prems(2)]
      add_feed_item_entries(2) [OF Cons.prems(3), of "clock' k'" info]] info
  show ?case by simp
qed

lemma add_items_rest:
  assumes "add_items clock k fg lis = Inr fg'"
  shows "fg'\<lparr>fg_entries := []\<rparr> = fg\<lparr>fg_entries := []\<rparr>"
  using assms
proof (induction lis arbitrary: k fg)
  case Nil
  then show ?case by simp
next
  case (Cons li lis)
  from Cons.prems obtain info where
    rest: "add_items clock (Suc k) (add_feed_item (clock k) fg info) lis = Inr fg'"
    by (auto split: sum.splits)
  from Cons.IH [OF rest] show ?case
    by (simp add: add_feed_item_def Let_def)
qed

text \<open>
  Two assemblies of the same rows, with the clock read at different times: the second
  succeeds when the first does, and the two generators are equal but for the field
  \<open>updated\<close> of their entries. What the feed file then holds is what \<open>rss_file\<close> writes
  for the generator.
\<close>

lemma feeds_differ_in_updated_only:
  assumes "add_items clock1 0 create_base_feed lis = Inr fg1"
  shows "\<exists>fg2. add_items clock2 0 create_base_feed lis = Inr fg2
           \<and> fg2\<lparr>fg_entries := []\<rparr> = fg1\<lparr>fg_entries := []\<rparr>
           \<and> map (\<lambda>fe. fe\<lparr>fe_updated := None\<rparr>) (fg_entries fg2)
               = map (\<lambda>fe. fe\<lparr>fe_updated := None\<rparr>) (fg_entries fg1)"
proof -
  from add_items_clock [OF assms create_base_feed_author create_base_feed_author]
  obtain fg2 where run2: "add_items clock2 0 create_base_feed lis = Inr fg2"
    by blast
  from add_items_Inr [OF assms create_base_feed_author] obtain infos1 where
    i1: "map extract_info lis = map Inr infos1" and
    e1: "fg_entries fg1 = map (\<lambda>(i, info). spec_entry (clock1 i) info) (enumerate 0 infos1)"
    by (auto simp: create_base_feed_entries)
  from add_items_Inr [OF run2 create_base_feed_author] obtain infos2 where
    i2: "map extract_info lis = map Inr infos2" and
    e2: "fg_entries fg2 = map (\<lambda>(i, info). spec_entry (clock2 i) info) (enumerate 0 infos2)"
    by (auto simp: create_base_feed_entries)
  from i1 i2 have "map Inr infos1 = (map Inr infos2 :: (py_error + Info) list)" by simp
  then have same: "infos1 = infos2"
    by (simp add: inj_map_eq_map)
  from e1 e2 same
  have "map (\<lambda>fe. fe\<lparr>fe_updated := None\<rparr>) (fg_entries fg2)
               = map (\<lambda>fe. fe\<lparr>fe_updated := None\<rparr>) (fg_entries fg1)"
    by (simp add: spec_entry_def case_prod_beta)
  moreover from add_items_rest [OF assms] add_items_rest [OF run2]
  have "fg2\<lparr>fg_entries := []\<rparr> = fg1\<lparr>fg_entries := []\<rparr>" by simp
  ultimately show ?thesis using run2 by blast
qed

section \<open>Properties of the feed assembler\<close>

text \<open>
  Claim C7: \<open>add_feed_item\<close> appends one entry; its identifier is the base URL followed
  by the record's id, and its only link has the record's enclosure URL as \<open>href\<close> and
  the relation \<open>alternate\<close>. The identifier does not depend on the enclosure field, nor
  the link on the id field.
\<close>

theorem C7_entry_id_and_link:
  "fg_entries (add_feed_item now fg info)
     = fg_entries fg @ [last (fg_entries (add_feed_item now fg info))]
   \<and> fe_id (last (fg_entries (add_feed_item now fg info))) = Some (BASE_URL @ info_id info)
   \<and> fe_link (last (fg_entries (add_feed_item now fg info)))
       = [\<lparr>href = info_enc info, rel = ''alternate''\<rparr>]
   \<and> fe_id (last (fg_entries (add_feed_item now fg (info\<lparr>info_enc := other\<rparr>))))
       = fe_id (last (fg_entries (add_feed_item now fg info)))
   \<and> fe_link (last (fg_entries (add_feed_item now fg (info\<lparr>info_id := other\<rparr>))))
       = fe_link (last (fg_entries (add_feed_item now fg info)))"
  by (simp add: add_feed_item_def new_FeedEntry_def set_author_def Let_def split: option.splits)

end
